theory Spec2Isabelle
  imports Complex_Main "HOL-Library.Multiset"
begin

section \<open>Exceptions and Python containers\<close>

text \<open>
  Every exception the modelled code can raise is a value of \<open>error\<close>; a fallible
  computation returns \<open>error + 'a\<close> with \<open>Inl\<close> carrying the exception.
  \<open>OSError\<close> stands for any failure of opening or decoding a file.
\<close>

datatype error =
    ValueError
  | IndexError
  | KeyError
  | AttributeError
  | AssertionError
  | ZeroDivisionError
  | OverflowError
  | RuntimeError
  | OSError

text \<open>Sequencing: the first exception raised ends the computation.\<close>

definition ebind :: "error + 'a \<Rightarrow> ('a \<Rightarrow> error + 'b) \<Rightarrow> error + 'b" where
  "ebind m f = (case m of Inl e \<Rightarrow> Inl e | Inr x \<Rightarrow> f x)"

text \<open>Python list indexing \<^verbatim>\<open>xs[i]\<close>: a negative index counts from the end.\<close>

definition py_index :: "'a list \<Rightarrow> int \<Rightarrow> error + 'a" where
  "py_index xs i =
     (let n = int (length xs); j = (if i < 0 then i + n else i)
      in if 0 \<le> j \<and> j < n then Inr (xs ! nat j) else Inl IndexError)"

text \<open>Dictionary lookup \<^verbatim>\<open>d[k]\<close> and attribute access on a possibly unset attribute.\<close>

definition py_lookup :: "('k \<rightharpoonup> 'v) \<Rightarrow> 'k \<Rightarrow> error + 'v" where
  "py_lookup d k = (case d k of None \<Rightarrow> Inl KeyError | Some v \<Rightarrow> Inr v)"

definition py_key :: "'v option \<Rightarrow> error + 'v" where
  "py_key v = (case v of None \<Rightarrow> Inl KeyError | Some x \<Rightarrow> Inr x)"

definition py_attr :: "'v option \<Rightarrow> error + 'v" where
  "py_attr v = (case v of None \<Rightarrow> Inl AttributeError | Some x \<Rightarrow> Inr x)"

text \<open>\<^verbatim>\<open>s.strip(chars)\<close>: drop leading and trailing characters that occur in \<open>chars\<close>.\<close>

definition strip :: "string \<Rightarrow> string \<Rightarrow> string" where
  "strip chars s =
     rev (dropWhile (\<lambda>c. c \<in> set chars) (rev (dropWhile (\<lambda>c. c \<in> set chars) s)))"

text \<open>\<^verbatim>\<open>os.path.join(a, b)\<close> on POSIX.\<close>

definition os_path_join :: "string \<Rightarrow> string \<Rightarrow> string" where
  "os_path_join a b =
     (if b \<noteq> [] \<and> hd b = CHR ''/'' then b
      else if a = [] \<or> last a = CHR ''/'' then a @ b
      else a @ ''/'' @ b)"

text \<open>
  \<^verbatim>\<open>str(PurePosixPath(a) / b)\<close>: pathlib splits both sides at \<^verbatim>\<open>/\<close>, drops the empty
  components and the components \<^verbatim>\<open>.\<close>, and starts again from \<open>b\<close> when \<open>b\<close> is absolute.
  A path that begins with exactly two slashes keeps them; the empty path is written
  \<^verbatim>\<open>.\<close>.
\<close>

fun split_on :: "char \<Rightarrow> string \<Rightarrow> string list" where
  "split_on c [] = [[]]"
| "split_on c (x # xs) =
     (if x = c then [] # split_on c xs
      else (case split_on c xs of [] \<Rightarrow> [[x]] | p # ps \<Rightarrow> (x # p) # ps))"

definition path_parts :: "string \<Rightarrow> string list" where
  "path_parts s = filter (\<lambda>p. p \<noteq> [] \<and> p \<noteq> ''.'') (split_on CHR ''/'' s)"

definition path_root :: "string \<Rightarrow> string" where
  "path_root s =
     (if take 2 s = ''//'' \<and> take 3 s \<noteq> ''///'' then ''//''
      else if take 1 s = ''/'' then ''/''
      else [])"

fun join_parts :: "string list \<Rightarrow> string" where
  "join_parts [] = []"
| "join_parts [p] = p"
| "join_parts (p # q # ps) = p @ ''/'' @ join_parts (q # ps)"

definition path_str :: "string \<Rightarrow> string list \<Rightarrow> string" where
  "path_str anchor parts =
     (if anchor = [] \<and> parts = [] then ''.'' else anchor @ join_parts parts)"

definition pathlib_div :: "string \<Rightarrow> string \<Rightarrow> string" where
  "pathlib_div a b =
     (if path_root b \<noteq> [] then path_str (path_root b) (path_parts b)
      else path_str (path_root a) (path_parts a @ path_parts b))"

section \<open>Padding transforms (data_utils.py)\<close>

text \<open>
  An image is its size and its pixels, row by row. \<^verbatim>\<open>image.size\<close> is
  \<open>(img_w, img_h)\<close>.
\<close>

record 'p image =
  img_w :: nat
  img_h :: nat
  img_px :: "'p list list"

text \<open>
  torchvision's \<^verbatim>\<open>F.pad(image, [left, top, right, bottom], 0, 'constant')\<close>: the image
  grows by the four amounts and the new pixels hold the fill value 0.
\<close>

definition pad :: "('p::zero) image \<Rightarrow> nat \<Rightarrow> nat \<Rightarrow> nat \<Rightarrow> nat \<Rightarrow> 'p image" where
  "pad img pad_left pad_top pad_right pad_bottom =
     (let w = pad_left + img_w img + pad_right
      in \<lparr> img_w = w,
           img_h = pad_top + img_h img + pad_bottom,
           img_px = replicate pad_top (replicate w 0)
                    @ map (\<lambda>row. replicate pad_left 0 @ row @ replicate pad_right 0) (img_px img)
                    @ replicate pad_bottom (replicate w 0) \<rparr>)"

text \<open>Python's \<^verbatim>\<open>int(x)\<close> on a float: truncation towards zero.\<close>

definition py_int :: "real \<Rightarrow> int" where
  "py_int x = (if 0 \<le> x then \<lfloor>x\<rfloor> else \<lceil>x\<rceil>)"

text \<open>
  \<^verbatim>\<open>SquarePad.__call__\<close>: \<^verbatim>\<open>/\<close> is true division, \<^verbatim>\<open>int\<close> truncates the half. Half of
  an integer is a float as it is, so this quotient is not rounded.
\<close>

definition SquarePad :: "('p::zero) image \<Rightarrow> 'p image" where
  "SquarePad img =
     (let w = int (img_w img); h = int (img_h img);
          max_wh = max w h;
          hp = py_int (real_of_int (max_wh - w) / 2);
          vp = py_int (real_of_int (max_wh - h) / 2)
      in pad img (nat hp) (nat vp) (nat hp) (nat vp))"

text \<open>
  Python floats are IEEE doubles, and an operation on floats returns the double nearest
  to its exact result. The doubles of magnitude up to \<open>2 ^ 53\<close> are the integers of
  magnitude up to \<open>2 ^ 53\<close> over a power of two up to \<open>2 ^ 1074\<close>. The rounding is the
  parameter \<open>fl\<close>; \<open>nearest_double\<close> is what IEEE 754 fixes of it for a result of
  magnitude up to \<open>2 ^ 53\<close>: a double, and none is nearer. Which of two equally near
  doubles is taken is left open.
\<close>

definition double :: "real set" where
  "double = {real_of_int m / 2 ^ b | m b. \<bar>m\<bar> \<le> 2 ^ 53 \<and> b \<le> 1074}"

definition nearest_double :: "(real \<Rightarrow> real) \<Rightarrow> bool" where
  "nearest_double fl \<longleftrightarrow>
     (\<forall>x. \<bar>x\<bar> \<le> 2 ^ 53 \<longrightarrow> fl x \<in> double \<and> (\<forall>y \<in> double. \<bar>fl x - x\<bar> \<le> \<bar>y - x\<bar>))"

text \<open>
  \<^verbatim>\<open>TargetPad.__call__\<close> for a finite \<^verbatim>\<open>target_ratio\<close>. Every quotient and difference
  is rounded: \<^verbatim>\<open>max(w, h) / min(w, h)\<close> divides two integers and rounds once; in
  \<^verbatim>\<open>max(w, h) / self.target_ratio\<close> and \<^verbatim>\<open>scaled_max_wh - w\<close> the integer becomes a
  float first. Dividing by zero raises \<open>ZeroDivisionError\<close>, for an image with an empty
  side and for a target ratio of zero. A quotient of magnitude \<open>2 ^ 1024 - 2 ^ 970\<close> or
  more rounds to an infinity, which \<^verbatim>\<open>int\<close> refuses with \<open>OverflowError\<close>.
\<close>

definition TargetPad :: "(real \<Rightarrow> real) \<Rightarrow> real \<Rightarrow> ('p::zero) image \<Rightarrow> error + 'p image" where
  "TargetPad fl target_ratio img =
     (let w = int (img_w img); h = int (img_h img)
      in if min w h = 0 then Inl ZeroDivisionError
         else
           let actual_ratio = fl (real_of_int (max w h) / real_of_int (min w h))
           in if actual_ratio < target_ratio then Inr img
              else if target_ratio = 0 then Inl ZeroDivisionError
              else if 2 ^ 1024 - 2 ^ 970 \<le> \<bar>fl (real_of_int (max w h)) / target_ratio\<bar>
                then Inl OverflowError
              else
                let scaled_max_wh = fl (fl (real_of_int (max w h)) / target_ratio);
                    hp = max (py_int (fl (fl (scaled_max_wh - fl (real_of_int w)) / 2))) 0;
                    vp = max (py_int (fl (fl (scaled_max_wh - fl (real_of_int h)) / 2))) 0
                in Inr (pad img (nat hp) (nat vp) (nat hp) (nat vp)))"

section \<open>Caption composition (data_utils.py)\<close>

text \<open>
  \<^verbatim>\<open>generate_randomized_fiq_caption(captions, type=-1)\<close>. The value drawn by
  \<^verbatim>\<open>random.random()\<close> is the argument \<open>r\<close>; it is drawn before \<open>type\<close> is looked at
  and overwritten when \<open>type\<close> is 0, 1, 2 or 3. The comparisons are Python's chained
  comparisons, strict on both sides. Every float is a rational number and float
  comparison is exact, so \<open>r\<close> and the literals are reals.
\<close>

definition generate_randomized_fiq_caption :: "real \<Rightarrow> string list \<Rightarrow> int \<Rightarrow> error + string" where
  "generate_randomized_fiq_caption r captions type =
     (let random_num =
            (if type = 0 then 0.12
             else if type = 1 then 0.37
             else if type = 2 then 0.62
             else if type = 3 then 0.88
             else r)
      in if random_num < 0.25 then
           ebind (py_index captions 0) (\<lambda>a.
           ebind (py_index captions 1) (\<lambda>b.
             Inr (strip ''.?, '' a @ '' and '' @ strip ''.?, '' b)))
         else if 0.25 < random_num \<and> random_num < 0.5 then
           ebind (py_index captions 1) (\<lambda>b.
           ebind (py_index captions 0) (\<lambda>a.
             Inr (strip ''.?, '' b @ '' and '' @ strip ''.?, '' a)))
         else if 0.5 < random_num \<and> random_num < 0.75 then
           ebind (py_index captions 0) (\<lambda>a. Inr (strip ''.?, '' a))
         else
           ebind (py_index captions 1) (\<lambda>b. Inr (strip ''.?, '' b)))"

section \<open>CIRDataset (data_utils.py)\<close>

text \<open>
  One entry of \<^verbatim>\<open>self.triplets\<close> after the constructor has rewritten it. The keys
  \<^verbatim>\<open>pairid\<close> and \<^verbatim>\<open>group_members\<close> exist for CIRR only; reading an absent key raises
  \<open>KeyError\<close>.
\<close>

record triplet =
  reference :: string
  reference_name :: string
  target :: string
  target_name :: string
  captions :: "string list"
  pairid :: "int option"
  group_members :: "string list option"

text \<open>
  The attributes of a constructed \<^verbatim>\<open>CIRDataset\<close>. An attribute the constructor sets
  on some paths only is an option: reading it while unset raises \<open>AttributeError\<close>.
  \<^verbatim>\<open>name_to_relpath\<close> keeps the key order of the manifest, which
  \<^verbatim>\<open>list(self.name_to_relpath.keys())\<close> reads.
\<close>

record CIRDataset =
  data_name :: string
  split :: string
  mode :: string
  data_path :: string
  dress_types :: "string list"
  triplets :: "triplet list"
  targetname2id :: "string \<rightharpoonup> nat"
  use_bank :: bool
  val_ret_train :: bool
  fiq_val_type :: int
  imagename2id :: "string \<rightharpoonup> nat"
  imagenames :: "string list"
  imagepaths :: "string list"
  N :: "nat option"
  image_path :: "string option"
  image_names :: "string list option"
  val_image_names :: "string list option"
  name_to_relpath :: "(string \<times> string) list option"

text \<open>The tuples \<^verbatim>\<open>CIRDataset.__getitem__\<close> returns, one constructor per return statement.\<close>

datatype 'img cir_item =
    TrainBank string int nat nat nat
  | TrainImages 'img string 'img int nat nat nat
  | ValRetTrain 'img string 'img
  | ValFiq string string "string list"
  | ValCirr string string string "string list"
  | Test1 int string string "string list"
  | NameImage string 'img

text \<open>
  The two random draws one call of \<^verbatim>\<open>__getitem__\<close> can make: \<^verbatim>\<open>random.random()\<close>
  and the index \<^verbatim>\<open>random.choice\<close> picks, which is below the length of the sequence.
\<close>

record draws =
  random_num :: real
  choice_num :: nat

definition random_choice :: "draws \<Rightarrow> 'a list \<Rightarrow> error + 'a" where
  "random_choice d xs =
     (if xs = [] then Inl IndexError else Inr (xs ! (choice_num d mod length xs)))"

text \<open>
  The caption of the train branch (lines 464 to 470) and of the validation branch with
  \<^verbatim>\<open>val_ret_train\<close> (lines 479 to 482).
\<close>

definition train_caption :: "CIRDataset \<Rightarrow> draws \<Rightarrow> int \<Rightarrow> string list \<Rightarrow> error + string" where
  "train_caption self d index caps =
     (if length caps > 1 then
        (if data_name self = ''fiq'' then
           ebind (py_attr (N self)) (\<lambda>n.
             if index < int n then generate_randomized_fiq_caption (random_num d) caps (- 1)
             else random_choice d caps)
         else random_choice d caps)
      else py_index caps 0)"

definition val_caption :: "draws \<Rightarrow> string list \<Rightarrow> error + string" where
  "val_caption d caps =
     (if length caps > 1 then generate_randomized_fiq_caption (random_num d) caps 0
      else py_index caps 0)"

text \<open>
  \<^verbatim>\<open>CIRDataset.__getitem__(index)\<close>. \<open>load path\<close> is
  \<^verbatim>\<open>self.preprocess(PIL.Image.open(path))\<close>, which raises when the file is missing or
  cannot be decoded. \<open>base_path\<close> is the module's \<^verbatim>\<open>base_path\<close>. The method has no
  handler: an exception leaves it. A path through the method that reaches no
  \<^verbatim>\<open>return\<close> yields \<open>None\<close>. The branches of the method are the definitions
  \<open>relative_train\<close> (lines 460 to 477), \<open>relative_val_ret_train\<close> (478 to 487),
  \<open>relative_val\<close> (488 to 493), \<open>relative_test1\<close> (494 to 497), \<open>classic_fiq\<close>
  (502 to 512, once per name list) and \<open>classic_cirr\<close> (513 to 517).
\<close>

definition relative_train ::
  "(string \<Rightarrow> error + 'img) \<Rightarrow> CIRDataset \<Rightarrow> draws \<Rightarrow> int \<Rightarrow> triplet \<Rightarrow> error + 'img cir_item option" where
  "relative_train load self d index t =
     ebind (py_lookup (targetname2id self) (target_name t)) (\<lambda>target_index.
     ebind (py_lookup (imagename2id self) (reference_name t)) (\<lambda>reference_index_all.
     ebind (py_lookup (imagename2id self) (target_name t)) (\<lambda>target_index_all.
     ebind (train_caption self d index (captions t)) (\<lambda>caption.
       if use_bank self then
         Inr (Some (TrainBank caption index target_index target_index_all reference_index_all))
       else
         ebind (load (reference t)) (\<lambda>reference_image.
         ebind (load (target t)) (\<lambda>target_image.
           Inr (Some (TrainImages reference_image caption target_image index target_index
                  reference_index_all target_index_all))))))))"

definition relative_val_ret_train ::
  "(string \<Rightarrow> error + 'img) \<Rightarrow> draws \<Rightarrow> triplet \<Rightarrow> error + 'img cir_item option" where
  "relative_val_ret_train load d t =
     ebind (val_caption d (captions t)) (\<lambda>caption.
     ebind (load (reference t)) (\<lambda>reference_image.
     ebind (load (target t)) (\<lambda>target_image.
       Inr (Some (ValRetTrain reference_image caption target_image)))))"

definition relative_val :: "CIRDataset \<Rightarrow> triplet \<Rightarrow> error + 'img cir_item option" where
  "relative_val self t =
     (if data_name self = ''fiq'' then
        Inr (Some (ValFiq (reference_name t) (target_name t) (captions t)))
      else if data_name self = ''cirr'' then
        ebind (py_index (captions t) 0) (\<lambda>c.
        ebind (py_key (group_members t)) (\<lambda>g.
          Inr (Some (ValCirr (reference_name t) (target_name t) c g))))
      else Inr None)"

definition relative_test1 :: "CIRDataset \<Rightarrow> triplet \<Rightarrow> error + 'img cir_item option" where
  "relative_test1 self t =
     (if data_name self \<noteq> ''cirr'' then Inl AssertionError
      else
        ebind (py_key (pairid t)) (\<lambda>pair_id.
        ebind (py_index (captions t) 0) (\<lambda>c.
        ebind (py_key (group_members t)) (\<lambda>g.
          Inr (Some (Test1 pair_id (reference_name t) c g))))))"

definition classic_fiq ::
  "(string \<Rightarrow> error + 'img) \<Rightarrow> CIRDataset \<Rightarrow> string list option \<Rightarrow> int \<Rightarrow> error + 'img cir_item option" where
  "classic_fiq load self names_attr index =
     ebind (py_attr names_attr) (\<lambda>names.
     ebind (py_index names index) (\<lambda>image_name.
     ebind (py_attr (image_path self)) (\<lambda>ip.
     ebind (load (os_path_join ip (image_name @ ''.png''))) (\<lambda>im.
       Inr (Some (NameImage image_name im))))))"

definition classic_cirr ::
  "(string \<Rightarrow> error + 'img) \<Rightarrow> string \<Rightarrow> CIRDataset \<Rightarrow> int \<Rightarrow> error + 'img cir_item option" where
  "classic_cirr load base_path self index =
     ebind (py_attr (name_to_relpath self)) (\<lambda>rel.
     ebind (py_index (map fst rel) index) (\<lambda>image_name.
     ebind (py_key (map_of rel image_name)) (\<lambda>p.
     ebind (load (pathlib_div (pathlib_div base_path ''cirr_dataset'') p)) (\<lambda>im.
       Inr (Some (NameImage image_name im))))))"

definition CIRDataset_getitem ::
  "(string \<Rightarrow> error + 'img) \<Rightarrow> string \<Rightarrow> CIRDataset \<Rightarrow> draws \<Rightarrow> int \<Rightarrow> error + 'img cir_item option" where
  "CIRDataset_getitem load base_path self d index =
     (if mode self = ''relative'' then
        ebind (py_index (triplets self) index) (\<lambda>t.
          if split self = ''train'' then relative_train load self d index t
          else if split self = ''val'' \<and> val_ret_train self then relative_val_ret_train load d t
          else if split self = ''val'' then relative_val self t
          else if split self = ''test1'' then relative_test1 self t
          else Inr None)
      else if mode self = ''classic'' then
        (if data_name self = ''fiq'' then
           (if fiq_val_type self = 0 then classic_fiq load self (image_names self) index
            else if fiq_val_type self = 1 then
              (if split self \<noteq> ''val'' then Inl AssertionError
               else classic_fiq load self (val_image_names self) index)
            else Inr None)
         else if data_name self = ''cirr'' then classic_cirr load base_path self index
         else Inr None)
      else Inr None)"

section \<open>Ranking and index building (inference.py)\<close>

text \<open>
  A two-dimensional tensor: the number of columns and the rows. A tensor with no rows
  still has its number of columns, as \<^verbatim>\<open>torch.empty((0, feature_dim))\<close> has.
  The entries are float32 values, each of them a real number.
\<close>

record matrix =
  ncols :: nat
  mrows :: "real list list"

text \<open>
  The tensors of \<^verbatim>\<open>get_predictions\<close> hold float32 values. What torch computes on them
  is rounded, in an order of operations that the library and the device fix, so the three
  computations the function makes are the parameters \<open>ops\<close>:
  \<open>op_normalize_row\<close> is \<^verbatim>\<open>F.normalize(index_features, dim=-1)\<close> on one row,
  \<open>op_dot\<close> is one entry of \<^verbatim>\<open>predicted_features @ index_features.T\<close>, and
  \<open>op_one_minus\<close> is \<^verbatim>\<open>1 - x\<close> on one entry.
\<close>

record torch_ops =
  op_normalize_row :: "real list \<Rightarrow> real list"
  op_dot :: "real list \<Rightarrow> real list \<Rightarrow> real"
  op_one_minus :: "real \<Rightarrow> real"

definition normalize :: "torch_ops \<Rightarrow> matrix \<Rightarrow> matrix" where
  "normalize ops M = M\<lparr>mrows := map (op_normalize_row ops) (mrows M)\<rparr>"

text \<open>
  \<^verbatim>\<open>predicted_features @ index_features.T\<close> for the single query row that
  \<^verbatim>\<open>predictions\<close> returns: one entry per gallery row; torch raises \<open>RuntimeError\<close> when
  the sizes do not match.
\<close>

definition matmul_T :: "torch_ops \<Rightarrow> real list \<Rightarrow> matrix \<Rightarrow> error + real list" where
  "matmul_T ops q M =
     (if length q \<noteq> ncols M then Inl RuntimeError else Inr (map (op_dot ops q) (mrows M)))"

text \<open>\<^verbatim>\<open>np.array(index_names)[sorted_indices]\<close>: an index out of range raises \<open>IndexError\<close>.\<close>

fun take_names :: "string list \<Rightarrow> nat list \<Rightarrow> error + string list" where
  "take_names names [] = Inr []"
| "take_names names (i # rest) =
     ebind (py_index names (int i)) (\<lambda>n.
     ebind (take_names names rest) (\<lambda>ns. Inr (n # ns)))"

text \<open>
  \<^verbatim>\<open>get_predictions\<close> from the line that normalises the index features on;
  \<open>predicted_features\<close> is the row the call of \<^verbatim>\<open>predictions\<close> returned. The result is
  the single row of \<^verbatim>\<open>sorted_index_names\<close>.

  \<^verbatim>\<open>torch.argsort(distances, dim=-1)\<close> is called without \<^verbatim>\<open>stable=True\<close>. The library
  function is the parameter \<open>argsort\<close>; what PyTorch documents of it for this call is
  \<open>argsort_contract\<close>: the result holds every position once and reads the values in
  ascending order. The order of equal values is not fixed by the call.
\<close>

definition get_predictions ::
  "(real list \<Rightarrow> nat list) \<Rightarrow> torch_ops \<Rightarrow> real list \<Rightarrow> matrix \<Rightarrow> string list \<Rightarrow>
   error + string list" where
  "get_predictions argsort ops predicted_features index_features index_names =
     (let index_features = normalize ops index_features
      in ebind (matmul_T ops predicted_features index_features) (\<lambda>scores.
           let distances = map (op_one_minus ops) scores;
               sorted_indices = argsort distances
           in take_names index_names sorted_indices))"

definition argsort_contract :: "(real list \<Rightarrow> nat list) \<Rightarrow> bool" where
  "argsort_contract argsort \<longleftrightarrow>
     (\<forall>ds. mset (argsort ds) = mset [0..<length ds] \<and>
           sorted (map (\<lambda>i. ds ! i) (argsort ds)))"

text \<open>
  \<^verbatim>\<open>torch.vstack((index_features, batch_features))\<close>: the rows are appended; torch raises
  \<open>RuntimeError\<close> when a row has another number of columns.
\<close>

definition vstack :: "matrix \<Rightarrow> real list list \<Rightarrow> error + matrix" where
  "vstack M batch =
     (if list_all (\<lambda>r. length r = ncols M) batch
      then Inr (M\<lparr>mrows := mrows M @ batch\<rparr>)
      else Inl RuntimeError)"

text \<open>
  \<^verbatim>\<open>extract_index_features(dataset, clip_model)\<close>. The \<^verbatim>\<open>DataLoader\<close> has
  \<^verbatim>\<open>batch_size=1\<close> and no sampler, so it fetches \<^verbatim>\<open>dataset[0]\<close>, \<^verbatim>\<open>dataset[1]\<close>, ... up to
  \<^verbatim>\<open>len(dataset) - 1\<close> and hands each item, as a list of one, to \<^verbatim>\<open>collate_fn\<close>.
  \<open>getitem\<close> and \<open>len\<close> are the dataset's \<^verbatim>\<open>__getitem__\<close> and \<^verbatim>\<open>__len__\<close>; an item
  is \<open>None\<close> when the dataset returned nothing. \<open>encode\<close> is
  \<^verbatim>\<open>clip_model.encode_image\<close> on one image; it is applied to every image of the batch.
  \<^verbatim>\<open>utils.collate_fn\<close> is imported from a module that is not among the sources: it is
  the parameter \<open>collate_fn\<close>, which turns the fetched items into the names and the
  images of the batch, or raises.
\<close>

fun index_loop ::
  "((string \<times> 'img) option list \<Rightarrow> error + string list \<times> 'img list) \<Rightarrow> ('img \<Rightarrow> real list) \<Rightarrow>
   (int \<Rightarrow> error + (string \<times> 'img) option) \<Rightarrow> nat list \<Rightarrow> matrix \<times> string list \<Rightarrow>
   error + matrix \<times> string list" where
  "index_loop collate_fn encode getitem [] acc = Inr acc"
| "index_loop collate_fn encode getitem (i # rest) acc =
     ebind (getitem (int i)) (\<lambda>item.
     ebind (collate_fn [item]) (\<lambda>batch.
     ebind (vstack (fst acc) (map encode (snd batch))) (\<lambda>index_features.
       index_loop collate_fn encode getitem rest (index_features, snd acc @ fst batch))))"

definition extract_index_features ::
  "((string \<times> 'img) option list \<Rightarrow> error + string list \<times> 'img list) \<Rightarrow> ('img \<Rightarrow> real list) \<Rightarrow>
   nat \<Rightarrow> (int \<Rightarrow> error + (string \<times> 'img) option) \<Rightarrow> nat \<Rightarrow> error + matrix \<times> string list" where
  "extract_index_features collate_fn encode feature_dim getitem len =
     index_loop collate_fn encode getitem [0..<len] (\<lparr>ncols = feature_dim, mrows = []\<rparr>, [])"

section \<open>Manifest files\<close>

text \<open>
  One entry of a FashionIQ caption file and one of a CIRR caption file, as
  \<^verbatim>\<open>json.load\<close> returns them. The keys every entry of a well-formed manifest has are
  plain fields; a key that some files lack (\<^verbatim>\<open>target\<close> in the test split,
  \<^verbatim>\<open>target_hard\<close>, \<^verbatim>\<open>llm_caption\<close>) is an option, and reading it while absent raises
  \<open>KeyError\<close>. A CIRR \<^verbatim>\<open>caption\<close> is a string, or a list once the constructor has
  replaced it.
\<close>

record raw_fiq =
  candidate :: string
  raw_target :: "string option"
  raw_captions :: "string list"
  llm_caption :: "string option"

datatype caption_field = CaptionStr string | CaptionList "string list"

record raw_cirr =
  cirr_reference :: string
  target_hard :: "string option"
  caption :: caption_field
  cirr_pairid :: int
  members :: "string list"
  cirr_llm_caption :: "string option"

text \<open>
  The files the constructors read, by path: \<open>open\<close> followed by \<^verbatim>\<open>json.load\<close>, which
  raises when the file is missing or malformed. \<open>optimized_images_file\<close> is \<open>None\<close>
  when \<^verbatim>\<open>os.path.exists\<close> is false. A JSON object is the list of its keys and values in
  the order of the file, keys distinct.
\<close>

record files =
  fiq_captions_file :: "string \<Rightarrow> error + raw_fiq list"
  image_names_file :: "string \<Rightarrow> error + string list"
  cirr_captions_file :: "string \<Rightarrow> error + raw_cirr list"
  name_to_relpath_file :: "string \<Rightarrow> error + (string \<times> string) list"
  landscape_file :: "string \<Rightarrow> error + string list"
  optimized_images_file ::
    "string \<Rightarrow> (error + string list \<times> string list \<times> (string \<times> nat) list) option"

text \<open>Reading one file per path and extending a list with each, in order.\<close>

fun read_all :: "(string \<Rightarrow> error + 'a list) \<Rightarrow> string list \<Rightarrow> error + 'a list" where
  "read_all rd [] = Inr []"
| "read_all rd (p # ps) =
     ebind (rd p) (\<lambda>xs. ebind (read_all rd ps) (\<lambda>ys. Inr (xs @ ys)))"

text \<open>A loop or comprehension whose body can raise: the first exception ends it.\<close>

fun map_err :: "('a \<Rightarrow> error + 'b) \<Rightarrow> 'a list \<Rightarrow> error + 'b list" where
  "map_err f [] = Inr []"
| "map_err f (x # xs) =
     ebind (f x) (\<lambda>y. ebind (map_err f xs) (\<lambda>ys. Inr (y # ys)))"

text \<open>
  A \<^verbatim>\<open>try\<close> block whose handler is \<^verbatim>\<open>except Exception as e: print(...)\<close>: the
  exception is printed and the method returns \<open>None\<close>. The result is what the method
  returns and what it printed.
\<close>

definition try_except_print :: "error + 'a option \<Rightarrow> 'a option \<times> error list" where
  "try_except_print body = (case body of Inl e \<Rightarrow> (None, [e]) | Inr r \<Rightarrow> (r, []))"

section \<open>FashionIQDataset, CIRRDataset and WikiartDataset (data_utils.py)\<close>

record FashionIQDataset =
  fiq_mode :: string
  fiq_dress_types :: "string list"
  fiq_split :: string
  fiq_triplets :: "raw_fiq list"
  fiq_image_names :: "string list"

definition FashionIQDataset_init ::
  "files \<Rightarrow> string \<Rightarrow> string \<Rightarrow> string list \<Rightarrow> string \<Rightarrow> error + FashionIQDataset" where
  "FashionIQDataset_init fs base_path split_arg dress_types_arg mode_arg =
     (if mode_arg \<notin> set [''relative'', ''classic''] then Inl ValueError
      else if split_arg \<notin> set [''test'', ''train'', ''val''] then Inl ValueError
      else if \<not> list_all (\<lambda>dress_type. dress_type \<in> set [''dress'', ''shirt'', ''toptee''])
                  dress_types_arg then Inl ValueError
      else
        ebind (read_all (fiq_captions_file fs)
                 (map (\<lambda>dress_type.
                    pathlib_div (pathlib_div (pathlib_div base_path ''fashionIQ_dataset'')
                      ''captions'') (''cap.'' @ dress_type @ ''.'' @ split_arg @ ''.json''))
                  dress_types_arg)) (\<lambda>ts.
        ebind (read_all (image_names_file fs)
                 (map (\<lambda>dress_type.
                    pathlib_div (pathlib_div (pathlib_div base_path ''fashionIQ_dataset'')
                      ''image_splits'') (''split.'' @ dress_type @ ''.'' @ split_arg @ ''.json''))
                  dress_types_arg)) (\<lambda>names.
          Inr \<lparr> fiq_mode = mode_arg, fiq_dress_types = dress_types_arg, fiq_split = split_arg,
                fiq_triplets = ts, fiq_image_names = names \<rparr>)))"

datatype 'img fiq_item =
    FiqTrain 'img 'img "string list"
  | FiqVal string string "string list"
  | FiqTest string 'img "string list"
  | FiqClassic string 'img

definition fiq_image_file :: "string \<Rightarrow> string \<Rightarrow> string" where
  "fiq_image_file base_path name =
     pathlib_div (pathlib_div (pathlib_div base_path ''fashionIQ_dataset'') ''images'')
       (name @ ''.jpg'')"

text \<open>The body of the \<^verbatim>\<open>try\<close> block of \<^verbatim>\<open>FashionIQDataset.__getitem__\<close>, and the method.\<close>

definition FashionIQDataset_getitem_body ::
  "(string \<Rightarrow> error + 'img) \<Rightarrow> string \<Rightarrow> FashionIQDataset \<Rightarrow> int \<Rightarrow> error + 'img fiq_item option" where
  "FashionIQDataset_getitem_body load base_path self index =
     (if fiq_mode self = ''relative'' then
        ebind (py_index (fiq_triplets self) index) (\<lambda>t.
          let image_captions = raw_captions t; reference_name = candidate t
          in if fiq_split self = ''train'' then
               ebind (load (fiq_image_file base_path reference_name)) (\<lambda>reference_image.
               ebind (py_key (raw_target t)) (\<lambda>target_name.
               ebind (load (fiq_image_file base_path target_name)) (\<lambda>target_image.
                 Inr (Some (FiqTrain reference_image target_image image_captions)))))
             else if fiq_split self = ''val'' then
               ebind (py_key (raw_target t)) (\<lambda>target_name.
                 Inr (Some (FiqVal reference_name target_name image_captions)))
             else if fiq_split self = ''test'' then
               ebind (load (fiq_image_file base_path reference_name)) (\<lambda>reference_image.
                 Inr (Some (FiqTest reference_name reference_image image_captions)))
             else Inr None)
      else if fiq_mode self = ''classic'' then
        ebind (py_index (fiq_image_names self) index) (\<lambda>image_name.
        ebind (load (fiq_image_file base_path image_name)) (\<lambda>im.
          Inr (Some (FiqClassic image_name im))))
      else Inl ValueError)"

definition FashionIQDataset_getitem ::
  "(string \<Rightarrow> error + 'img) \<Rightarrow> string \<Rightarrow> FashionIQDataset \<Rightarrow> int \<Rightarrow> 'img fiq_item option \<times> error list" where
  "FashionIQDataset_getitem load base_path self index =
     try_except_print (FashionIQDataset_getitem_body load base_path self index)"

definition FashionIQDataset_len :: "FashionIQDataset \<Rightarrow> error + nat" where
  "FashionIQDataset_len self =
     (if fiq_mode self = ''relative'' then Inr (length (fiq_triplets self))
      else if fiq_mode self = ''classic'' then Inr (length (fiq_image_names self))
      else Inl ValueError)"

record CIRRDataset =
  cirr_mode :: string
  cirr_split :: string
  cirr_triplets :: "raw_cirr list"
  cirr_name_to_relpath :: "(string \<times> string) list"

definition CIRRDataset_init ::
  "files \<Rightarrow> string \<Rightarrow> string \<Rightarrow> string \<Rightarrow> error + CIRRDataset" where
  "CIRRDataset_init fs base_path split_arg mode_arg =
     (if split_arg \<notin> set [''test1'', ''train'', ''val''] then Inl ValueError
      else if mode_arg \<notin> set [''relative'', ''classic''] then Inl ValueError
      else
        ebind (cirr_captions_file fs
                 (pathlib_div (pathlib_div (pathlib_div (pathlib_div base_path ''cirr_dataset'')
                    ''cirr'') ''captions'') (''cap.rc2.'' @ split_arg @ ''.json''))) (\<lambda>ts.
        ebind (name_to_relpath_file fs
                 (pathlib_div (pathlib_div (pathlib_div (pathlib_div base_path ''cirr_dataset'')
                    ''cirr'') ''image_splits'') (''split.rc2.'' @ split_arg @ ''.json''))) (\<lambda>rel.
          Inr \<lparr> cirr_mode = mode_arg, cirr_split = split_arg, cirr_triplets = ts,
                cirr_name_to_relpath = rel \<rparr>)))"

datatype 'img cirr_item =
    CirrTrain 'img 'img caption_field
  | CirrVal string string caption_field "string list"
  | CirrTest int string caption_field "string list"
  | CirrClassic string 'img

definition cirr_image_file :: "string \<Rightarrow> string \<Rightarrow> string" where
  "cirr_image_file base_path relpath =
     pathlib_div (pathlib_div base_path ''cirr_dataset'') relpath"

definition CIRRDataset_getitem_body ::
  "(string \<Rightarrow> error + 'img) \<Rightarrow> string \<Rightarrow> CIRRDataset \<Rightarrow> int \<Rightarrow> error + 'img cirr_item option" where
  "CIRRDataset_getitem_body load base_path self index =
     (if cirr_mode self = ''relative'' then
        ebind (py_index (cirr_triplets self) index) (\<lambda>t.
          let group_members = members t; reference_name = cirr_reference t;
              rel_caption = caption t
          in if cirr_split self = ''train'' then
               ebind (py_key (map_of (cirr_name_to_relpath self) reference_name)) (\<lambda>rp.
               ebind (load (cirr_image_file base_path rp)) (\<lambda>reference_image.
               ebind (py_key (target_hard t)) (\<lambda>target_hard_name.
               ebind (py_key (map_of (cirr_name_to_relpath self) target_hard_name)) (\<lambda>tp.
               ebind (load (cirr_image_file base_path tp)) (\<lambda>target_image.
                 Inr (Some (CirrTrain reference_image target_image rel_caption)))))))
             else if cirr_split self = ''val'' then
               ebind (py_key (target_hard t)) (\<lambda>target_hard_name.
                 Inr (Some (CirrVal reference_name target_hard_name rel_caption group_members)))
             else if cirr_split self = ''test1'' then
               Inr (Some (CirrTest (cirr_pairid t) reference_name rel_caption group_members))
             else Inr None)
      else if cirr_mode self = ''classic'' then
        ebind (py_index (map fst (cirr_name_to_relpath self)) index) (\<lambda>image_name.
        ebind (py_key (map_of (cirr_name_to_relpath self) image_name)) (\<lambda>rp.
        ebind (load (cirr_image_file base_path rp)) (\<lambda>im.
          Inr (Some (CirrClassic image_name im)))))
      else Inl ValueError)"

definition CIRRDataset_getitem ::
  "(string \<Rightarrow> error + 'img) \<Rightarrow> string \<Rightarrow> CIRRDataset \<Rightarrow> int \<Rightarrow> 'img cirr_item option \<times> error list" where
  "CIRRDataset_getitem load base_path self index =
     try_except_print (CIRRDataset_getitem_body load base_path self index)"

text \<open>
  \<^verbatim>\<open>WikiartDataset\<close>: \<open>wikiart_dataset\<close> holds the \<^verbatim>\<open>image_path\<close> of every entry of
  \<^verbatim>\<open>landscape.json\<close>.
\<close>

record WikiartDataset =
  wikiart_base_path :: string
  wikiart_dataset :: "string list"

definition WikiartDataset_init :: "files \<Rightarrow> string \<Rightarrow> error + WikiartDataset" where
  "WikiartDataset_init fs base_path_arg =
     ebind (landscape_file fs (os_path_join base_path_arg ''landscape.json'')) (\<lambda>entries.
       Inr \<lparr> wikiart_base_path = base_path_arg, wikiart_dataset = entries \<rparr>)"

definition WikiartDataset_getitem_body ::
  "(string \<Rightarrow> error + 'img) \<Rightarrow> WikiartDataset \<Rightarrow> int \<Rightarrow> error + (string \<times> 'img) option" where
  "WikiartDataset_getitem_body load self index =
     ebind (py_index (wikiart_dataset self) index) (\<lambda>image_name.
     ebind (load (os_path_join (os_path_join (wikiart_base_path self) ''images'') image_name)) (\<lambda>im.
       Inr (Some (image_name, im))))"

definition WikiartDataset_getitem ::
  "(string \<Rightarrow> error + 'img) \<Rightarrow> WikiartDataset \<Rightarrow> int \<Rightarrow> (string \<times> 'img) option \<times> error list" where
  "WikiartDataset_getitem load self index =
     try_except_print (WikiartDataset_getitem_body load self index)"

section \<open>CIRDataset.__init__ (data_utils.py)\<close>

text \<open>
  The entry the constructor makes of a FashionIQ entry and of a CIRR entry (the two list
  comprehensions that rebuild \<^verbatim>\<open>self.triplets\<close>).
\<close>

definition fiq_triplet :: "string \<Rightarrow> raw_fiq \<Rightarrow> error + triplet" where
  "fiq_triplet image_dir t =
     ebind (py_key (raw_target t)) (\<lambda>tg.
       Inr \<lparr> reference = os_path_join image_dir (candidate t @ ''.png''),
             reference_name = candidate t,
             target = os_path_join image_dir (tg @ ''.png''),
             target_name = tg,
             captions = raw_captions t,
             pairid = None, group_members = None \<rparr>)"

definition cirr_triplet :: "string \<Rightarrow> (string \<times> string) list \<Rightarrow> raw_cirr \<Rightarrow> error + triplet" where
  "cirr_triplet image_dir rel t =
     ebind (py_key (map_of rel (cirr_reference t))) (\<lambda>rp.
     ebind (case target_hard t of
              None \<Rightarrow> Inr ('''', '''')
            | Some th \<Rightarrow> ebind (py_key (map_of rel th)) (\<lambda>tp. Inr (os_path_join image_dir tp, th)))
       (\<lambda>tgt.
       Inr \<lparr> reference = os_path_join image_dir rp,
             reference_name = cirr_reference t,
             target = fst tgt,
             target_name = snd tgt,
             captions = (case caption t of CaptionStr s \<Rightarrow> [s] | CaptionList l \<Rightarrow> l),
             pairid = Some (cirr_pairid t),
             group_members = Some (members t) \<rparr>))"

text \<open>The branch \<^verbatim>\<open>self.data_name == 'fiq'\<close> (lines 347 to 385).\<close>

definition init_fiq ::
  "files \<Rightarrow> (string list \<Rightarrow> string list) \<Rightarrow> bool \<Rightarrow> bool \<Rightarrow> CIRDataset \<Rightarrow> error + CIRDataset" where
  "init_fiq fs list_of_set plus_arg llmcap_arg self =
     (let caption_path = os_path_join (data_path self) ''captions'';
          image_dir = os_path_join (data_path self) ''images''
      in
      ebind (read_all (fiq_captions_file fs)
               (map (\<lambda>dress_type.
                  os_path_join caption_path (''cap.'' @ dress_type @ ''.'' @ split self @ ''.json''))
                (dress_types self))) (\<lambda>base.
      ebind (if split self = ''train'' \<and> plus_arg then
               ebind (fiq_captions_file fs
                        (os_path_join caption_path
                           (''cap.extend_clip'' @ (if llmcap_arg then ''_llm'' else '''') @ ''.train.json'')))
                 (\<lambda>extend_triplets.
               ebind (if llmcap_arg then
                        map_err (\<lambda>t. ebind (py_key (llm_caption t))
                                   (\<lambda>c. Inr (t\<lparr>raw_captions := [c]\<rparr>))) extend_triplets
                      else Inr extend_triplets) (\<lambda>extended.
                 Inr (base @ extended)))
             else Inr base) (\<lambda>raw.
      ebind (map_err (fiq_triplet image_dir) raw) (\<lambda>ts.
      ebind (read_all (image_names_file fs)
               (map (\<lambda>dress_type.
                  os_path_join (os_path_join (data_path self) ''image_splits'')
                    (''split.'' @ dress_type @ ''.'' @ split self @ ''.json''))
                (dress_types self))) (\<lambda>names.
        Inr (self\<lparr> triplets := ts, N := Some (length base), image_path := Some image_dir,
                   image_names := Some names,
                   val_image_names :=
                     Some (if fiq_val_type self = 1 \<and> split self = ''val''
                           then list_of_set
                                  (concat (map (\<lambda>t. [reference_name t, target_name t]) ts))
                           else []) \<rparr>))))))"

text \<open>The branch \<^verbatim>\<open>self.data_name == 'cirr'\<close> (lines 386 to 421).\<close>

definition init_cirr :: "files \<Rightarrow> bool \<Rightarrow> bool \<Rightarrow> CIRDataset \<Rightarrow> error + CIRDataset" where
  "init_cirr fs plus_arg llmcap_arg self =
     (let caption_path = os_path_join (data_path self) ''cirr/captions'';
          image_splits_path = os_path_join (data_path self) ''cirr/image_splits'';
          image_dir = data_path self
      in
      ebind (cirr_captions_file fs
               (os_path_join caption_path (''cap.rc2.'' @ split self @ ''.json''))) (\<lambda>base.
      ebind (name_to_relpath_file fs
               (os_path_join image_splits_path (''split.rc2.'' @ split self @ ''.json''))) (\<lambda>rel.
      ebind (if split self = ''train'' \<and> plus_arg then
               ebind (cirr_captions_file fs
                        (os_path_join caption_path
                           (''cap.rc2.train.extend_clip'' @ (if llmcap_arg then ''_llm'' else '''')
                              @ ''.json'')))
                 (\<lambda>extend_triplets.
               ebind (if llmcap_arg then
                        map_err (\<lambda>t. ebind (py_key (cirr_llm_caption t))
                                   (\<lambda>c. Inr (t\<lparr>caption := CaptionList [c]\<rparr>))) extend_triplets
                      else Inr extend_triplets) (\<lambda>extended.
                 Inr (base @ extended)))
             else Inr base) (\<lambda>raw.
      ebind (map_err (cirr_triplet image_dir rel) raw) (\<lambda>ts.
        Inr (self\<lparr> triplets := ts, N := Some (length base), image_path := Some image_dir,
                   name_to_relpath := Some rel \<rparr>))))))"

text \<open>
  The loop over the triplets of the train split (lines 425 to 438). The state is
  \<^verbatim>\<open>targetname2id\<close>, \<^verbatim>\<open>target_id\<close>, \<^verbatim>\<open>imagename2id\<close>, \<^verbatim>\<open>image_id\<close> and
  \<^verbatim>\<open>imagenames\<close>; the two counters are printed and not read again.
\<close>

type_synonym id_tables =
  "(string \<rightharpoonup> nat) \<times> nat \<times> (string \<rightharpoonup> nat) \<times> nat \<times> string list"

definition add_image :: "string \<Rightarrow> (string \<rightharpoonup> nat) \<times> nat \<times> string list \<Rightarrow>
    (string \<rightharpoonup> nat) \<times> nat \<times> string list" where
  "add_image name st =
     (case st of (name2id, image_id, names) \<Rightarrow>
        if name2id name = None
        then (name2id(name \<mapsto> image_id), image_id + 1, names @ [name])
        else st)"

fun assign_ids :: "triplet list \<Rightarrow> id_tables \<Rightarrow> id_tables" where
  "assign_ids [] st = st"
| "assign_ids (t # ts) (target2id, target_id, name2id, image_id, names) =
     (let refer_name = reference_name t;
          tgt_name = target_name t;
          targets = (if target2id tgt_name = None
                     then (target2id(tgt_name \<mapsto> target_id), target_id + 1)
                     else (target2id, target_id));
          images = add_image tgt_name (add_image refer_name (name2id, image_id, names))
      in assign_ids ts (fst targets, snd targets, images))"

text \<open>The block \<^verbatim>\<open>if split == 'train'\<close> (lines 422 to 451).\<close>

definition init_train :: "files \<Rightarrow> CIRDataset \<Rightarrow> error + CIRDataset" where
  "init_train fs self =
     (case assign_ids (triplets self) (targetname2id self, 0, imagename2id self, 0, imagenames self)
      of (target2id, target_id, name2id, image_id, names) \<Rightarrow>
        ebind (map_err (\<lambda>image_name.
                 ebind (py_attr (image_path self)) (\<lambda>image_dir.
                   if data_name self = ''fiq'' then Inr (os_path_join image_dir (image_name @ ''.png''))
                   else
                     ebind (py_attr (name_to_relpath self)) (\<lambda>rel.
                     ebind (py_key (map_of rel image_name)) (\<lambda>p.
                       Inr (os_path_join image_dir p))))) names) (\<lambda>paths.
          let self = self\<lparr> targetname2id := target2id, imagename2id := name2id,
                           imagenames := names, imagepaths := paths \<rparr>
          in case optimized_images_file fs (os_path_join (data_path self) ''optimized_images.json'')
             of None \<Rightarrow> Inr self
              | Some (Inl e) \<Rightarrow> Inl e
              | Some (Inr snapshot) \<Rightarrow>
                  Inr (self\<lparr> imagenames := fst snapshot, imagepaths := fst (snd snapshot),
                             imagename2id := map_of (snd (snd snapshot)) \<rparr>)))"

text \<open>
  \<^verbatim>\<open>CIRDataset.__init__\<close>. \<open>dress_types_arg\<close> is \<open>None\<close> for the default. \<open>list_of_set\<close>
  is \<^verbatim>\<open>list(set(...))\<close>, whose order Python does not fix. The constructor compares
  \<^verbatim>\<open>data_name\<close> and \<^verbatim>\<open>split\<close> with the names it knows and never looks at \<^verbatim>\<open>mode\<close>.
\<close>

definition CIRDataset_init ::
  "files \<Rightarrow> (string list \<Rightarrow> string list) \<Rightarrow> string \<Rightarrow> string \<Rightarrow> string \<Rightarrow> string \<Rightarrow>
   string list option \<Rightarrow> bool \<Rightarrow> int \<Rightarrow> bool \<Rightarrow> bool \<Rightarrow> error + CIRDataset" where
  "CIRDataset_init fs list_of_set data_name_arg split_arg mode_arg data_path_arg dress_types_arg
     val_ret_train_arg fiq_val_type_arg plus_arg llmcap_arg =
     ebind (case dress_types_arg of
              None \<Rightarrow> Inr [''dress'', ''shirt'', ''toptee'']
            | Some ds \<Rightarrow>
                if list_all (\<lambda>dress_type. dress_type \<in> set [''dress'', ''shirt'', ''toptee'']) ds
                then Inr ds else Inl AssertionError) (\<lambda>ds.
     ebind (let self =
                  \<lparr> data_name = data_name_arg, split = split_arg, mode = mode_arg,
                    data_path = data_path_arg, dress_types = ds, triplets = [],
                    targetname2id = Map.empty, use_bank = False,
                    val_ret_train = val_ret_train_arg, fiq_val_type = fiq_val_type_arg,
                    imagename2id = Map.empty, imagenames = [], imagepaths = [],
                    N = None, image_path = None, image_names = None,
                    val_image_names = None, name_to_relpath = None \<rparr>
            in if data_name_arg = ''fiq'' then init_fiq fs list_of_set plus_arg llmcap_arg self
               else if data_name_arg = ''cirr'' then init_cirr fs plus_arg llmcap_arg self
               else Inr self) (\<lambda>self.
       if split_arg = ''train'' then init_train fs self else Inr self))"

text \<open>\<^verbatim>\<open>CIRDataset.__len__\<close>: a path that reaches no \<^verbatim>\<open>return\<close> yields \<open>None\<close>.\<close>

definition CIRDataset_len :: "CIRDataset \<Rightarrow> error + nat option" where
  "CIRDataset_len self =
     (if mode self = ''relative'' then Inr (Some (length (triplets self)))
      else if mode self = ''classic'' then
        (if data_name self = ''fiq'' then
           (if fiq_val_type self = 0
            then ebind (py_attr (image_names self)) (\<lambda>names. Inr (Some (length names)))
            else ebind (py_attr (val_image_names self)) (\<lambda>names. Inr (Some (length names))))
         else if data_name self = ''cirr'' then
           ebind (py_attr (name_to_relpath self)) (\<lambda>rel. Inr (Some (length rel)))
         else Inr None)
      else Inr None)"

section \<open>Concrete inputs\<close>

text \<open>
  Two FashionIQ triplets with two captions each and a validation dataset that holds them.
\<close>

definition example_triplet :: triplet where
  "example_triplet =
     \<lparr> reference = ''data/images/B01.png'', reference_name = ''B01'',
       target = ''data/images/B02.png'', target_name = ''B02'',
       captions = [''is red.'', ''has long sleeves ''],
       pairid = None, group_members = None \<rparr>"

definition example_triplet2 :: triplet where
  "example_triplet2 =
     \<lparr> reference = ''data/images/B03.png'', reference_name = ''B03'',
       target = ''data/images/B04.png'', target_name = ''B04'',
       captions = [''is shorter'', ''is darker''],
       pairid = None, group_members = None \<rparr>"

definition example_val_dataset :: CIRDataset where
  "example_val_dataset =
     \<lparr> data_name = ''fiq'', split = ''val'', mode = ''relative'', data_path = ''data'',
       dress_types = [''dress''], triplets = [example_triplet, example_triplet2],
       targetname2id = Map.empty, use_bank = False, val_ret_train = True,
       fiq_val_type = 0, imagename2id = Map.empty, imagenames = [], imagepaths = [],
       N = Some 2, image_path = Some ''data/images'',
       image_names = Some [''B01'', ''B02'', ''B03'', ''B04''],
       val_image_names = Some [], name_to_relpath = None \<rparr>"

text \<open>
  A collate function: it keeps the items that were fetched and fails on a batch with
  none.
\<close>

definition collate_present ::
  "(string \<times> 'img) option list \<Rightarrow> error + string list \<times> 'img list" where
  "collate_present batch =
     (let present = concat (map (\<lambda>item. case item of None \<Rightarrow> [] | Some x \<Rightarrow> [x]) batch)
      in if present = [] then Inl IndexError else Inr (map fst present, map snd present))"

text \<open>
  A file system in which every manifest is missing, an image loader for which one image
  file is missing, and a FashionIQ dataset in classic mode over three images.
\<close>

definition no_files :: files where
  "no_files =
     \<lparr> fiq_captions_file = (\<lambda>p. Inl OSError), image_names_file = (\<lambda>p. Inl OSError),
       cirr_captions_file = (\<lambda>p. Inl OSError), name_to_relpath_file = (\<lambda>p. Inl OSError),
       landscape_file = (\<lambda>p. Inl OSError), optimized_images_file = (\<lambda>p. None) \<rparr>"

definition load_but :: "string \<Rightarrow> string \<Rightarrow> error + string" where
  "load_but missing path = (if path = missing then Inl OSError else Inr path)"

definition example_classic_dataset :: FashionIQDataset where
  "example_classic_dataset =
     \<lparr> fiq_mode = ''classic'', fiq_dress_types = [''dress''], fiq_split = ''val'',
       fiq_triplets = [], fiq_image_names = [''B01'', ''B02'', ''B03''] \<rparr>"

text \<open>
  A sorting routine within the contract of \<^verbatim>\<open>torch.argsort\<close>, and the three tensor
  computations without rounding.
\<close>

definition stable_argsort :: "real list \<Rightarrow> nat list" where
  "stable_argsort ds = map snd (sort_key fst (zip ds [0..<length ds]))"

definition exact_ops :: torch_ops where
  "exact_ops =
     \<lparr> op_normalize_row =
         (\<lambda>v. map (\<lambda>x. x / max (sqrt (sum_list (map (\<lambda>x. x\<^sup>2) v))) (1 / 10 ^ 12)) v),
       op_dot = (\<lambda>u v. sum_list (map2 (*) u v)),
       op_one_minus = (\<lambda>s. 1 - s) \<rparr>"

text \<open>
  A rounding within \<open>nearest_double\<close>: a nearest double, whichever it is when two are
  equally near.
\<close>

definition round_nearest :: "real \<Rightarrow> real" where
  "round_nearest x = (if \<bar>x\<bar> \<le> 2 ^ 53 then arg_min_on (\<lambda>y. \<bar>y - x\<bar>) double else x)"

section \<open>Basic facts about the containers\<close>

lemma ebind_Inr [simp]: "ebind (Inr x) f = f x"
  by (simp add: ebind_def)

lemma ebind_Inl [simp]: "ebind (Inl e) f = Inl e"
  by (simp add: ebind_def)

lemma py_index_0 [simp]: "py_index (a # xs) 0 = Inr a"
  by (simp add: py_index_def)

lemma py_index_1 [simp]: "py_index (a # b # xs) 1 = Inr b"
  by (simp add: py_index_def)

lemma py_index_single_1 [simp]: "py_index [a] 1 = Inl IndexError"
  by (simp add: py_index_def)

lemma py_index_Nil [simp]: "py_index [] i = Inl IndexError"
  by (simp add: py_index_def Let_def)

lemma py_index_nat: "i < length xs \<Longrightarrow> py_index xs (int i) = Inr (xs ! i)"
  by (simp add: py_index_def Let_def)

section \<open>Padding\<close>

lemma pad_zero [simp]: "pad img 0 0 0 0 = img"
  by (simp add: pad_def)

lemma pad_size [simp]:
  "img_w (pad img l t r b) = l + img_w img + r"
  "img_h (pad img l t r b) = t + img_h img + b"
  by (simp_all add: pad_def Let_def)

lemma py_int_0 [simp]: "py_int 0 = 0"
  by (simp add: py_int_def)

lemma py_int_half: "0 \<le> k \<Longrightarrow> py_int (real_of_int k / 2) = k div 2"
  by (simp add: py_int_def floor_divide_of_int_eq[of k 2, simplified])

lemma SquarePad_portrait:
  assumes "img_w img \<le> img_h img"
  shows "SquarePad img =
    pad img ((img_h img - img_w img) div 2) 0 ((img_h img - img_w img) div 2) 0"
proof -
  have "py_int (real_of_int (int (img_h img) - int (img_w img)) / 2) =
      (int (img_h img) - int (img_w img)) div 2"
    using assms by (intro py_int_half) simp
  also have "nat \<dots> = (img_h img - img_w img) div 2"
    using assms by (simp add: nat_div_distrib nat_diff_distrib)
  finally show ?thesis using assms
    by (simp add: SquarePad_def Let_def max_absorb2)
qed

lemma SquarePad_landscape:
  assumes "img_h img \<le> img_w img"
  shows "SquarePad img =
    pad img 0 ((img_w img - img_h img) div 2) 0 ((img_w img - img_h img) div 2)"
proof -
  have "py_int (real_of_int (int (img_w img) - int (img_h img)) / 2) =
      (int (img_w img) - int (img_h img)) div 2"
    using assms by (intro py_int_half) simp
  also have "nat \<dots> = (img_w img - img_h img) div 2"
    using assms by (simp add: nat_div_distrib nat_diff_distrib)
  finally show ?thesis using assms
    by (simp add: SquarePad_def Let_def max_absorb1)
qed

lemma half_twice:
  assumes ab: "(a::nat) \<le> b"
  shows "(b - a) div 2 + a + (b - a) div 2 = b - (b - a) mod 2"
proof -
  define d where "d = b - a"
  have b: "b = a + d" using ab by (simp add: d_def)
  have "d div 2 + d div 2 = d - d mod 2" by presburger
  moreover have "d mod 2 \<le> d" by simp
  ultimately have "d div 2 + a + d div 2 = a + d - d mod 2" by linarith
  then show ?thesis unfolding d_def[symmetric] b by simp
qed

text \<open>
  What \<open>SquarePad\<close> does reach: the long side is kept, and the short side ends one pixel
  below it exactly when the two sides differ by an odd number.
\<close>

lemma SquarePad_size:
  "img_w (SquarePad img) = max (img_w img) (img_h img) -
     (if img_w img \<le> img_h img then (img_h img - img_w img) mod 2 else 0)"
  "img_h (SquarePad img) = max (img_w img) (img_h img) -
     (if img_h img \<le> img_w img then (img_w img - img_h img) mod 2 else 0)"
proof -
  show "img_w (SquarePad img) = max (img_w img) (img_h img) -
     (if img_w img \<le> img_h img then (img_h img - img_w img) mod 2 else 0)"
  proof (cases "img_w img \<le> img_h img")
    case True
    then show ?thesis by (simp add: SquarePad_portrait max_absorb2 half_twice)
  next
    case False
    then show ?thesis by (simp add: SquarePad_landscape max_absorb1)
  qed
  show "img_h (SquarePad img) = max (img_w img) (img_h img) -
     (if img_h img \<le> img_w img then (img_w img - img_h img) mod 2 else 0)"
  proof (cases "img_h img \<le> img_w img")
    case True
    then show ?thesis by (simp add: SquarePad_landscape max_absorb1 half_twice)
  next
    case False
    then show ?thesis by (simp add: SquarePad_portrait max_absorb2)
  qed
qed

text \<open>
  C9. The claim: for every width and height, \<open>SquarePad\<close> returns an image whose width
  and height both equal the longer side. The code halves the difference and truncates
  the half on both sides, so an odd difference loses a pixel: a 3 by 4 image gets no
  padding at all and stays 3 by 4.
\<close>

theorem SquarePad_odd_difference_not_square:
  "SquarePad \<lparr>img_w = 3, img_h = 4, img_px = replicate 4 (replicate 3 (1::nat))\<rparr> =
     \<lparr>img_w = 3, img_h = 4, img_px = replicate 4 (replicate 3 (1::nat))\<rparr>"
  by (simp add: SquarePad_def py_int_def)

section \<open>Doubles and rounding\<close>

lemma doubleI:
  assumes "\<bar>m\<bar> \<le> 2 ^ 53" and "b \<le> 1074" and "x = real_of_int m / 2 ^ b"
  shows "x \<in> double"
  using assms unfolding double_def by blast

lemma doubleE:
  assumes "x \<in> double"
  obtains m b where "x = real_of_int m / 2 ^ b" and "\<bar>m\<bar> \<le> 2 ^ 53" and "b \<le> 1074"
  using assms unfolding double_def by blast

lemma double_bound:
  assumes "x \<in> double"
  shows "\<bar>x\<bar> \<le> 2 ^ 53"
proof -
  from assms obtain m b where x: "x = real_of_int m / 2 ^ b" and m: "\<bar>m\<bar> \<le> 2 ^ 53"
    by (rule doubleE)
  have "(1::real) \<le> 2 ^ b" by simp
  then have "\<bar>real_of_int m\<bar> / 2 ^ b \<le> \<bar>real_of_int m\<bar>"
    by (simp add: divide_le_eq mult_left_mono [of 1 "2 ^ b" "\<bar>real_of_int m\<bar>", simplified])
  moreover have "\<bar>real_of_int m\<bar> \<le> 2 ^ 53"
    using m by (metis of_int_abs of_int_le_numeral_power_cancel_iff)
  ultimately show ?thesis unfolding x by (simp add: abs_divide)
qed

lemma int_double:
  assumes "\<bar>n\<bar> \<le> 2 ^ 53"
  shows "real_of_int n \<in> double"
  using assms by (intro doubleI [where m = n and b = 0]) simp_all

lemma fl_double:
  assumes "nearest_double fl" and "\<bar>x\<bar> \<le> 2 ^ 53"
  shows "fl x \<in> double"
  using assms unfolding nearest_double_def by blast

lemma fl_nearest:
  assumes "nearest_double fl" and "\<bar>x\<bar> \<le> 2 ^ 53" and "y \<in> double"
  shows "\<bar>fl x - x\<bar> \<le> \<bar>y - x\<bar>"
  using assms unfolding nearest_double_def by blast

lemma fl_exact:
  assumes "nearest_double fl" and "x \<in> double"
  shows "fl x = x"
  using fl_nearest [OF assms(1) double_bound [OF assms(2)] assms(2)] by simp

lemma fl_int:
  assumes "nearest_double fl" and "\<bar>n\<bar> \<le> 2 ^ 53"
  shows "fl (real_of_int n) = real_of_int n"
  using assms by (intro fl_exact int_double)

text \<open>Rounding to a nearest double keeps the order.\<close>

lemma fl_mono:
  assumes fl: "nearest_double fl" and x: "\<bar>x\<bar> \<le> 2 ^ 53" and y: "\<bar>y\<bar> \<le> 2 ^ 53"
    and le: "x \<le> y"
  shows "fl x \<le> fl y"
proof (rule ccontr)
  assume "\<not> fl x \<le> fl y"
  then have lt: "fl y < fl x" by simp
  have "\<bar>fl x - x\<bar> \<le> \<bar>fl y - x\<bar>"
    by (rule fl_nearest [OF fl x fl_double [OF fl y]])
  moreover have "\<bar>fl y - y\<bar> \<le> \<bar>fl x - y\<bar>"
    by (rule fl_nearest [OF fl y fl_double [OF fl x]])
  ultimately have "x = y" using lt le by linarith
  with lt show False by simp
qed

lemma double_minus_int:
  assumes x: "x \<in> double" and n: "0 \<le> n" and le: "real_of_int n \<le> x"
  shows "x - real_of_int n \<in> double"
proof -
  from x obtain m b where xm: "x = real_of_int m / 2 ^ b" and m: "\<bar>m\<bar> \<le> 2 ^ 53"
    and b: "b \<le> 1074" by (rule doubleE)
  from le have "real_of_int n * 2 ^ b \<le> real_of_int m"
    unfolding xm by (simp add: pos_le_divide_eq)
  then have "real_of_int (n * 2 ^ b) \<le> real_of_int m" by simp
  then have lo: "n * 2 ^ b \<le> m" by (simp only: of_int_le_iff)
  have "0 \<le> n * 2 ^ b" using n by simp
  with lo m have "\<bar>m - n * 2 ^ b\<bar> \<le> 2 ^ 53" by linarith
  moreover have "x - real_of_int n = real_of_int (m - n * 2 ^ b) / 2 ^ b"
    unfolding xm by (simp add: diff_divide_distrib)
  ultimately show ?thesis using b by (intro doubleI)
qed

lemma double_minus_int_half:
  assumes x: "x \<in> double" and n: "1 \<le> n" and le: "real_of_int n \<le> x"
  shows "(x - real_of_int n) / 2 \<in> double"
proof -
  from x obtain m b where xm: "x = real_of_int m / 2 ^ b" and m: "\<bar>m\<bar> \<le> 2 ^ 53"
    by (rule doubleE)
  from le have "real_of_int n * 2 ^ b \<le> real_of_int m"
    unfolding xm by (simp add: pos_le_divide_eq)
  then have "real_of_int (n * 2 ^ b) \<le> real_of_int m" by simp
  then have lo: "n * 2 ^ b \<le> m" by (simp only: of_int_le_iff)
  have "(1::int) * 2 ^ b \<le> n * 2 ^ b" using n by (intro mult_right_mono) simp_all
  with lo m have pw: "(2::int) ^ b \<le> 2 ^ 53" by linarith
  have "1 < (2::int)" by simp
  from power_le_imp_le_exp [OF this pw] have b: "b \<le> 53" .
  have "0 \<le> n * 2 ^ b" using n by simp
  with lo m have "\<bar>m - n * 2 ^ b\<bar> \<le> 2 ^ 53" by linarith
  moreover have "(x - real_of_int n) / 2 = real_of_int (m - n * 2 ^ b) / 2 ^ Suc b"
    unfolding xm by (simp add: diff_divide_distrib)
  moreover have "Suc b \<le> 1074" using b by simp
  ultimately show ?thesis by (intro doubleI)
qed

lemma py_int_nonpos:
  assumes "x \<le> 0"
  shows "py_int x \<le> 0"
  using assms by (auto simp: py_int_def ceiling_le_zero)

text \<open>
  The half pad of a side that is not below the scaled length is clamped to zero; the half
  pad of a side that is not above it is computed without rounding.
\<close>

lemma half_pad_zero:
  assumes fl: "nearest_double fl" and s: "0 \<le> s" "s \<le> 2 ^ 53"
    and scaled: "0 \<le> scaled" "scaled \<le> real_of_int s"
  shows "max (py_int (fl (fl (scaled - real_of_int s) / 2))) 0 = 0"
proof -
  have s53: "real_of_int s \<le> 2 ^ 53"
    using s(2) by (metis of_int_le_numeral_power_cancel_iff)
  have zero: "fl 0 = 0"
    using fl_int [OF fl, of 0] by simp
  let ?d = "scaled - real_of_int s"
  have d: "?d \<le> 0" "\<bar>?d\<bar> \<le> 2 ^ 53"
    using scaled s(1) s53 by simp_all
  have fd: "fl ?d \<le> 0"
    using fl_mono [OF fl d(2) _ d(1)] zero by simp
  have "\<bar>fl ?d\<bar> \<le> 2 ^ 53"
    by (rule double_bound [OF fl_double [OF fl d(2)]])
  then have h: "\<bar>fl ?d / 2\<bar> \<le> 2 ^ 53" by simp
  have "fl ?d / 2 \<le> 0" using fd by simp
  then have "fl (fl ?d / 2) \<le> 0"
    using fl_mono [OF fl h, of 0] zero by simp
  then have "py_int (fl (fl ?d / 2)) \<le> 0" by (rule py_int_nonpos)
  then show ?thesis by (simp add: max_absorb2)
qed

lemma half_pad_exact:
  assumes fl: "nearest_double fl" and s: "1 \<le> s"
    and scaled: "scaled \<in> double" "real_of_int s \<le> scaled"
  shows "max (py_int (fl (fl (scaled - real_of_int s) / 2))) 0
      = \<lfloor>(scaled - real_of_int s) / 2\<rfloor>"
    and "0 \<le> \<lfloor>(scaled - real_of_int s) / 2\<rfloor>"
proof -
  let ?d = "scaled - real_of_int s"
  have d: "fl ?d = ?d"
    using s scaled by (intro fl_exact [OF fl] double_minus_int) simp_all
  have h: "fl (?d / 2) = ?d / 2"
    using s scaled by (intro fl_exact [OF fl] double_minus_int_half)
  have nonneg: "0 \<le> ?d / 2" using scaled(2) by simp
  then show fl0: "0 \<le> \<lfloor>?d / 2\<rfloor>" by simp
  have "py_int (?d / 2) = \<lfloor>?d / 2\<rfloor>" using nonneg by (simp add: py_int_def)
  then show "max (py_int (fl (fl (scaled - real_of_int s) / 2))) 0 = \<lfloor>?d / 2\<rfloor>"
    using fl0 by (simp add: d h max_absorb1)
qed

text \<open>The distance from a number to its double is below 1.\<close>

lemma fl_within_one:
  assumes fl: "nearest_double fl" and x: "0 \<le> x" "x \<le> 2 ^ 53"
  shows "\<bar>fl x - x\<bar> < 1"
proof -
  have "\<lfloor>x\<rfloor> \<le> 2 ^ 53"
    using x(2) by (simp add: floor_le_iff)
  moreover have "0 \<le> \<lfloor>x\<rfloor>" using x(1) by simp
  ultimately have "real_of_int \<lfloor>x\<rfloor> \<in> double" by (intro int_double) simp
  then have "\<bar>fl x - x\<bar> \<le> \<bar>real_of_int \<lfloor>x\<rfloor> - x\<bar>"
    using x by (intro fl_nearest [OF fl]) simp_all
  also have "\<dots> < 1" by linarith
  finally show ?thesis .
qed

text \<open>The rounding of the concrete inputs is within the contract.\<close>

lemma finite_double: "finite double"
proof -
  have "double \<subseteq> (\<lambda>(m, b). real_of_int m / 2 ^ b) ` ({- (2 ^ 53)..2 ^ 53} \<times> {..1074})"
    unfolding double_def by (auto simp: image_iff abs_le_iff)
  then show ?thesis by (rule finite_subset) simp
qed

lemma nearest_double_round_nearest: "nearest_double round_nearest"
  unfolding nearest_double_def
proof (intro allI impI conjI ballI)
  fix x :: real
  assume x: "\<bar>x\<bar> \<le> 2 ^ 53"
  have ne: "double \<noteq> {}"
    using int_double [of 0] by auto
  from x show "round_nearest x \<in> double"
    by (simp add: round_nearest_def arg_min_if_finite(1) [OF finite_double ne])
  fix y assume y: "y \<in> double"
  have "\<bar>arg_min_on (\<lambda>y. \<bar>y - x\<bar>) double - x\<bar> \<le> \<bar>y - x\<bar>"
    by (rule arg_min_least [OF finite_double ne y, of "\<lambda>y. \<bar>y - x\<bar>"])
  then show "\<bar>round_nearest x - x\<bar> \<le> \<bar>y - x\<bar>"
    using x by (simp add: round_nearest_def)
qed

section \<open>TargetPad\<close>

lemma overflow_bound:
  assumes "\<bar>x\<bar> \<le> 2 ^ 53"
  shows "\<not> 2 ^ 1024 - 2 ^ 970 \<le> \<bar>x :: real\<bar>"
proof -
  have "(2::real) ^ 53 < 2 ^ 1024 - 2 ^ 970" by simp
  with assms show ?thesis by linarith
qed

text \<open>
  The scaled length when the ratio of the long side \<open>M\<close> to the short side \<open>m\<close> is below
  the target, and when it is not.
\<close>

lemma scaled_below_short:
  assumes fl: "nearest_double fl" and m: "1 \<le> m" "m \<le> M" and M: "M < 2 ^ 53"
    and r: "real_of_int M / real_of_int m < t"
  shows "t \<noteq> 0" and "fl (real_of_int M) = real_of_int M"
    and "\<bar>real_of_int M / t\<bar> \<le> 2 ^ 53"
    and "0 \<le> fl (real_of_int M / t)" and "fl (real_of_int M / t) \<le> real_of_int m"
proof -
  have mpos: "0 < real_of_int m" using m(1) by simp
  have "1 \<le> real_of_int M / real_of_int m" using m mpos by (simp add: pos_le_divide_eq)
  with r have t: "1 < t" by simp
  then show "t \<noteq> 0" by simp
  show fM: "fl (real_of_int M) = real_of_int M"
    using m M by (intro fl_int [OF fl]) simp
  have M53: "real_of_int M \<le> 2 ^ 53" "real_of_int m \<le> 2 ^ 53"
    using m M by (metis less_imp_le of_int_le_numeral_power_cancel_iff order_trans)+
  from r mpos have "real_of_int M < t * real_of_int m"
    by (simp add: pos_divide_less_eq)
  then have q: "real_of_int M / t < real_of_int m"
    using t by (simp add: pos_divide_less_eq mult.commute)
  have q0: "0 \<le> real_of_int M / t" using m t by simp
  show b: "\<bar>real_of_int M / t\<bar> \<le> 2 ^ 53" using q q0 M53 by simp
  have zero: "fl 0 = 0" using fl_int [OF fl, of 0] by simp
  show "0 \<le> fl (real_of_int M / t)"
    using fl_mono [OF fl _ b q0] zero by simp
  have "fl (real_of_int M / t) \<le> fl (real_of_int m)"
    using q M53 mpos by (intro fl_mono [OF fl b]) simp_all
  also have "fl (real_of_int m) = real_of_int m"
    using m M by (intro fl_int [OF fl]) simp
  finally show "fl (real_of_int M / t) \<le> real_of_int m" .
qed

lemma scaled_between_sides:
  assumes fl: "nearest_double fl" and m: "1 \<le> m" "m \<le> M" and M: "M < 2 ^ 53"
    and t: "t \<in> double" "1 \<le> t"
    and r: "t \<le> real_of_int M / real_of_int m"
  shows "\<not> fl (real_of_int M / real_of_int m) < t" and "fl (real_of_int M) = real_of_int M"
    and "\<bar>real_of_int M / t\<bar> \<le> 2 ^ 53"
    and "fl (real_of_int M / t) \<in> double"
    and "real_of_int m \<le> fl (real_of_int M / t)" and "fl (real_of_int M / t) \<le> real_of_int M"
proof -
  have mpos: "0 < real_of_int m" using m(1) by simp
  have tpos: "0 < t" using t(2) by simp
  have M53: "real_of_int M \<le> 2 ^ 53" "real_of_int m \<le> 2 ^ 53"
    using m M by (metis less_imp_le of_int_le_numeral_power_cancel_iff order_trans)+
  have Mpos: "0 \<le> real_of_int M" using m by simp
  show fM: "fl (real_of_int M) = real_of_int M"
    using m M by (intro fl_int [OF fl]) simp
  have fm: "fl (real_of_int m) = real_of_int m"
    using m M by (intro fl_int [OF fl]) simp
  have "real_of_int M / real_of_int m \<le> real_of_int M"
    using m Mpos by (simp add: divide_le_eq mult_left_mono [of 1 "real_of_int m" "real_of_int M", simplified])
  then have rb: "\<bar>real_of_int M / real_of_int m\<bar> \<le> 2 ^ 53"
    using M53 Mpos mpos by simp
  have "fl t \<le> fl (real_of_int M / real_of_int m)"
    by (rule fl_mono [OF fl double_bound [OF t(1)] rb r])
  then show "\<not> fl (real_of_int M / real_of_int m) < t"
    by (simp add: fl_exact [OF fl t(1)])
  have qM: "real_of_int M / t \<le> real_of_int M"
    using t(2) Mpos by (simp add: divide_le_eq mult_left_mono [of 1 t "real_of_int M", simplified])
  have q0: "0 \<le> real_of_int M / t" using Mpos tpos by simp
  show b: "\<bar>real_of_int M / t\<bar> \<le> 2 ^ 53" using qM q0 M53 by simp
  show "fl (real_of_int M / t) \<in> double" by (rule fl_double [OF fl b])
  from r mpos have "t * real_of_int m \<le> real_of_int M"
    by (simp add: pos_le_divide_eq)
  then have mq: "real_of_int m \<le> real_of_int M / t"
    using tpos by (simp add: pos_le_divide_eq mult.commute)
  have "fl (real_of_int m) \<le> fl (real_of_int M / t)"
    using M53 mpos by (intro fl_mono [OF fl _ b mq]) simp
  then show "real_of_int m \<le> fl (real_of_int M / t)" by (simp only: fm)
  have "fl (real_of_int M / t) \<le> fl (real_of_int M)"
    using M53 Mpos by (intro fl_mono [OF fl b _ qM]) simp
  then show "fl (real_of_int M / t) \<le> real_of_int M" by (simp only: fM)
qed

text \<open>The method on an image that is at least as wide as high, and on one at least as high as wide.\<close>

lemma TargetPad_landscape:
  assumes "0 < img_h img" and "img_h img \<le> img_w img"
  shows "TargetPad fl t img =
    (if fl (real_of_int (int (img_w img)) / real_of_int (int (img_h img))) < t then Inr img
     else if t = 0 then Inl ZeroDivisionError
     else if 2 ^ 1024 - 2 ^ 970 \<le> \<bar>fl (real_of_int (int (img_w img))) / t\<bar> then Inl OverflowError
     else Inr (pad img
       (nat (max (py_int (fl (fl (fl (fl (real_of_int (int (img_w img))) / t)
          - fl (real_of_int (int (img_w img)))) / 2))) 0))
       (nat (max (py_int (fl (fl (fl (fl (real_of_int (int (img_w img))) / t)
          - fl (real_of_int (int (img_h img)))) / 2))) 0))
       (nat (max (py_int (fl (fl (fl (fl (real_of_int (int (img_w img))) / t)
          - fl (real_of_int (int (img_w img)))) / 2))) 0))
       (nat (max (py_int (fl (fl (fl (fl (real_of_int (int (img_w img))) / t)
          - fl (real_of_int (int (img_h img)))) / 2))) 0))))"
proof -
  have mx: "max (int (img_w img)) (int (img_h img)) = int (img_w img)"
    and mn: "min (int (img_w img)) (int (img_h img)) = int (img_h img)"
    using assms(2) by simp_all
  have nz: "int (img_h img) \<noteq> 0" using assms(1) by simp
  show ?thesis
    unfolding TargetPad_def Let_def mx mn by (simp only: nz if_False)
qed

lemma TargetPad_portrait:
  assumes "0 < img_w img" and "img_w img \<le> img_h img"
  shows "TargetPad fl t img =
    (if fl (real_of_int (int (img_h img)) / real_of_int (int (img_w img))) < t then Inr img
     else if t = 0 then Inl ZeroDivisionError
     else if 2 ^ 1024 - 2 ^ 970 \<le> \<bar>fl (real_of_int (int (img_h img))) / t\<bar> then Inl OverflowError
     else Inr (pad img
       (nat (max (py_int (fl (fl (fl (fl (real_of_int (int (img_h img))) / t)
          - fl (real_of_int (int (img_w img)))) / 2))) 0))
       (nat (max (py_int (fl (fl (fl (fl (real_of_int (int (img_h img))) / t)
          - fl (real_of_int (int (img_h img)))) / 2))) 0))
       (nat (max (py_int (fl (fl (fl (fl (real_of_int (int (img_h img))) / t)
          - fl (real_of_int (int (img_w img)))) / 2))) 0))
       (nat (max (py_int (fl (fl (fl (fl (real_of_int (int (img_h img))) / t)
          - fl (real_of_int (int (img_h img)))) / 2))) 0))))"
proof -
  have mx: "max (int (img_w img)) (int (img_h img)) = int (img_h img)"
    and mn: "min (int (img_w img)) (int (img_h img)) = int (img_w img)"
    using assms(2) by simp_all
  have nz: "int (img_w img) \<noteq> 0" using assms(1) by simp
  show ?thesis
    unfolding TargetPad_def Let_def mx mn by (simp only: nz if_False)
qed

lemma floor_half_bounds:
  fixes d :: real
  assumes "0 \<le> d"
  shows "real_of_int s + 2 * real (nat \<lfloor>d / 2\<rfloor>) \<le> real_of_int s + d"
    and "real_of_int s + d - 2 < real_of_int s + 2 * real (nat \<lfloor>d / 2\<rfloor>)"
proof -
  have "0 \<le> \<lfloor>d / 2\<rfloor>" using assms by simp
  then have r: "real (nat \<lfloor>d / 2\<rfloor>) = real_of_int \<lfloor>d / 2\<rfloor>" by simp
  have "real_of_int \<lfloor>d / 2\<rfloor> \<le> d / 2" by (rule of_int_floor_le)
  then show "real_of_int s + 2 * real (nat \<lfloor>d / 2\<rfloor>) \<le> real_of_int s + d"
    unfolding r by simp
  have "d / 2 < real_of_int \<lfloor>d / 2\<rfloor> + 1" by linarith
  then show "real_of_int s + d - 2 < real_of_int s + 2 * real (nat \<lfloor>d / 2\<rfloor>)"
    unfolding r by linarith
qed

text \<open>
  The long side is \<open>a\<close>, the short side \<open>b\<close>; \<open>pads\<close> is the call of \<open>pad\<close> with the half
  pad of the long side and the half pad of the short side put where the image has them.
\<close>

lemma pads_below_target:
  assumes fl: "nearest_double fl" and b: "1 \<le> b" "b \<le> a" and a: "a < 2 ^ 53"
    and r: "real_of_int a / real_of_int b < t"
  shows "(if fl (real_of_int a / real_of_int b) < t then Inr img
     else if t = 0 then Inl ZeroDivisionError
     else if 2 ^ 1024 - 2 ^ 970 \<le> \<bar>fl (real_of_int a) / t\<bar> then Inl OverflowError
     else Inr (pads
       (nat (max (py_int (fl (fl (fl (fl (real_of_int a) / t) - fl (real_of_int a)) / 2))) 0))
       (nat (max (py_int (fl (fl (fl (fl (real_of_int a) / t) - fl (real_of_int b)) / 2))) 0))))
    = (if fl (real_of_int a / real_of_int b) < t then Inr img else Inr (pads 0 0)
        :: error + 'p image)"
proof -
  note sb = scaled_below_short [OF fl b a r]
  have fb: "fl (real_of_int b) = real_of_int b"
    using b a by (intro fl_int [OF fl]) simp
  have ov: "\<not> 2 ^ 1024 - 2 ^ 970 \<le> \<bar>real_of_int a / t\<bar>"
    by (rule overflow_bound [OF sb(3)])
  have la: "fl (real_of_int a / t) \<le> real_of_int a"
    using sb(5) b(2) by simp
  have pa: "max (py_int (fl (fl (fl (real_of_int a / t) - real_of_int a) / 2))) 0 = 0"
    using b a by (intro half_pad_zero [OF fl _ _ sb(4) la]) simp_all
  have pb: "max (py_int (fl (fl (fl (real_of_int a / t) - real_of_int b) / 2))) 0 = 0"
    using b a by (intro half_pad_zero [OF fl _ _ sb(4) sb(5)]) simp_all
  show ?thesis
    unfolding sb(2) fb by (simp only: sb(1) ov pa pb if_False nat_0)
qed

lemma pads_at_target:
  assumes fl: "nearest_double fl" and b: "1 \<le> b" "b \<le> a" and a: "a < 2 ^ 53"
    and t: "t \<in> double" "1 \<le> t"
    and r: "t \<le> real_of_int a / real_of_int b"
  shows "(if fl (real_of_int a / real_of_int b) < t then Inr img
     else if t = 0 then Inl ZeroDivisionError
     else if 2 ^ 1024 - 2 ^ 970 \<le> \<bar>fl (real_of_int a) / t\<bar> then Inl OverflowError
     else Inr (pads
       (nat (max (py_int (fl (fl (fl (fl (real_of_int a) / t) - fl (real_of_int a)) / 2))) 0))
       (nat (max (py_int (fl (fl (fl (fl (real_of_int a) / t) - fl (real_of_int b)) / 2))) 0))))
    = (Inr (pads 0 (nat \<lfloor>(fl (real_of_int a / t) - real_of_int b) / 2\<rfloor>))
        :: error + 'p image)"
proof -
  note sb = scaled_between_sides [OF fl b a t r]
  have fb: "fl (real_of_int b) = real_of_int b"
    using b a by (intro fl_int [OF fl]) simp
  have t0: "t \<noteq> 0" using t(2) by simp
  have ov: "\<not> 2 ^ 1024 - 2 ^ 970 \<le> \<bar>real_of_int a / t\<bar>"
    by (rule overflow_bound [OF sb(3)])
  have s0: "0 \<le> fl (real_of_int a / t)"
    using sb(5) b(1) by simp
  have pa: "max (py_int (fl (fl (fl (real_of_int a / t) - real_of_int a) / 2))) 0 = 0"
    using b a by (intro half_pad_zero [OF fl _ _ s0 sb(6)]) simp_all
  note pb = half_pad_exact [OF fl b(1) sb(4) sb(5)]
  show ?thesis
    unfolding sb(2) fb by (simp only: sb(1) t0 ov pa pb(1) if_False nat_0)
qed

text \<open>
  Above \<open>2 ^ (52 - g)\<close> every double is a multiple of \<open>1 / 2 ^ g\<close>. So a multiple of
  \<open>1 / 2 ^ g\<close> that is a double and less than half that step away from \<open>x\<close> is the
  double of \<open>x\<close>.
\<close>

lemma double_on_grid:
  assumes r: "r \<in> double" and g: "g \<le> 52" and big: "2 ^ (52 - g) < r"
  obtains j :: int where "r = real_of_int j / 2 ^ g"
proof -
  from r obtain m b where rm: "r = real_of_int m / 2 ^ b" and m: "\<bar>m\<bar> \<le> 2 ^ 53"
    by (rule doubleE)
  from big have "2 ^ (52 - g) * 2 ^ b < real_of_int m"
    unfolding rm by (simp add: pos_less_divide_eq)
  then have "real_of_int (2 ^ (52 - g + b)) < real_of_int m"
    by (simp add: power_add)
  then have "(2::int) ^ (52 - g + b) < m" by (simp only: of_int_less_iff)
  with m have pw: "(2::int) ^ (52 - g + b) < 2 ^ 53" by linarith
  have "1 < (2::int)" by simp
  from power_less_imp_less_exp [OF this pw] have "52 - g + b < 53" .
  with g have bg: "b \<le> g" by simp
  then have "(2::real) ^ g = 2 ^ b * 2 ^ (g - b)"
    by (simp add: power_add [symmetric])
  then have "r = real_of_int (m * 2 ^ (g - b)) / 2 ^ g"
    unfolding rm by simp
  then show ?thesis by (rule that)
qed

lemma fl_on_grid:
  assumes fl: "nearest_double fl" and x: "\<bar>x\<bar> \<le> 2 ^ 53" and g: "g \<le> 52"
    and y: "real_of_int k / 2 ^ g \<in> double"
    and big: "2 ^ (52 - g) < x - \<bar>real_of_int k / 2 ^ g - x\<bar>"
    and near: "2 * \<bar>real_of_int k / 2 ^ g - x\<bar> < 1 / 2 ^ g"
  shows "fl x = real_of_int k / 2 ^ g"
proof -
  define y where "y = real_of_int k / 2 ^ g"
  define step :: real where "step = 1 / 2 ^ g"
  define low :: real where "low = 2 ^ (52 - g)"
  have rd: "fl x \<in> double" by (rule fl_double [OF fl x])
  have rn: "\<bar>fl x - x\<bar> \<le> \<bar>y - x\<bar>"
    unfolding y_def by (rule fl_nearest [OF fl x y])
  have big': "low < x - \<bar>y - x\<bar>" and near': "2 * \<bar>y - x\<bar> < step"
    using big near by (simp_all add: y_def step_def low_def)
  from rn big' have "low < fl x" by linarith
  with rd g obtain j :: int where j: "fl x = real_of_int j / 2 ^ g"
    unfolding low_def by (rule double_on_grid)
  have "\<bar>fl x - y\<bar> \<le> \<bar>fl x - x\<bar> + \<bar>x - y\<bar>"
    using abs_triangle_ineq [of "fl x - x" "x - y"] by simp
  moreover have "\<bar>x - y\<bar> = \<bar>y - x\<bar>" by (rule abs_minus_commute)
  ultimately have "\<bar>fl x - y\<bar> \<le> 2 * \<bar>y - x\<bar>" using rn by simp
  with near' have "\<bar>fl x - y\<bar> < step" by simp
  then have "\<bar>real_of_int (j - k) / 2 ^ g\<bar> < 1 / 2 ^ g"
    unfolding j y_def step_def by (simp add: diff_divide_distrib)
  then have "\<bar>real_of_int (j - k)\<bar> < 1"
    by (simp add: abs_divide divide_less_cancel)
  then have "\<bar>j - k\<bar> < 1" by linarith
  then have "j = k" by simp
  then show ?thesis unfolding j by simp
qed

text \<open>
  The double that Python writes \<^verbatim>\<open>1.6\<close> is just above 1.6, and 8 divided by it rounds
  to 5.
\<close>

lemma double_1_6:
  assumes "nearest_double fl"
  shows "fl (16 / 10) = 3602879701896397 / 2 ^ 51"
proof -
  have y: "real_of_int 7205759403792794 / 2 ^ 52 \<in> double"
    by (rule doubleI [where m = 7205759403792794 and b = 52]) simp_all
  have "fl (16 / 10) = real_of_int 7205759403792794 / 2 ^ 52"
    by (rule fl_on_grid [OF assms _ _ y]) simp_all
  then show ?thesis by simp
qed

lemma eight_over_1_6:
  assumes "nearest_double fl"
  shows "fl (8 / (3602879701896397 / 2 ^ 51)) = 5"
proof -
  have y: "real_of_int (5 * 2 ^ 50) / 2 ^ 50 \<in> double"
    by (rule doubleI [where m = 5 and b = 0]) simp_all
  have "fl (8 / (3602879701896397 / 2 ^ 51)) = real_of_int (5 * 2 ^ 50) / 2 ^ 50"
    by (rule fl_on_grid [OF assms _ _ y]) simp_all
  then show ?thesis by simp
qed

lemma round_nearest_double:
  assumes "x \<in> double"
  shows "round_nearest x = x"
  using assms by (rule fl_exact [OF nearest_double_round_nearest])

text \<open>
  C4. The claim: for every image, when the ratio is not below the target the pad brings
  the ratio to the target up to the integer pad, and never goes past the target towards
  a square. The code takes any target ratio: with 0.5 a 4 by 2 image is padded on all
  four sides to 8 by 8, a square. And the quotients are rounded: with the double that
  Python writes \<^verbatim>\<open>1.6\<close>, a 1 by 8 image is padded to 5 by 8, whose ratio 8 / 5 is below
  that double.
\<close>

theorem TargetPad_pads_past_target:
  "TargetPad round_nearest (1 / 2)
       \<lparr>img_w = 4, img_h = 2, img_px = [[1, 2, 3, 4], [5, 6, 7, 8 :: nat]]\<rparr>
     = Inr (pad \<lparr>img_w = 4, img_h = 2, img_px = [[1, 2, 3, 4], [5, 6, 7, 8]]\<rparr> 2 3 2 3) \<and>
   img_w (pad \<lparr>img_w = 4, img_h = 2, img_px = [[1, 2, 3, 4], [5, 6, 7, 8 :: nat]]\<rparr> 2 3 2 3) = 8 \<and>
   img_h (pad \<lparr>img_w = 4, img_h = 2, img_px = [[1, 2, 3, 4], [5, 6, 7, 8 :: nat]]\<rparr> 2 3 2 3) = 8 \<and>
   round_nearest (16 / 10) = 3602879701896397 / 2 ^ 51 \<and>
   TargetPad round_nearest (3602879701896397 / 2 ^ 51)
       \<lparr>img_w = 1, img_h = 8, img_px = [[1], [2], [3], [4], [5], [6], [7], [8 :: nat]]\<rparr>
     = Inr (pad \<lparr>img_w = 1, img_h = 8, img_px = [[1], [2], [3], [4], [5], [6], [7], [8]]\<rparr>
              2 0 2 0) \<and>
   img_w (pad \<lparr>img_w = 1, img_h = 8, img_px = [[1], [2], [3], [4], [5], [6], [7], [8 :: nat]]\<rparr>
            2 0 2 0) = 5 \<and>
   img_h (pad \<lparr>img_w = 1, img_h = 8, img_px = [[1], [2], [3], [4], [5], [6], [7], [8 :: nat]]\<rparr>
            2 0 2 0) = 8 \<and>
   (8 :: real) / 5 < 3602879701896397 / 2 ^ 51"
proof -
  note rn = nearest_double_round_nearest
  have ex: "round_nearest (real_of_int n) = real_of_int n" if "\<bar>n\<bar> \<le> 2 ^ 53" for n
    using that by (rule fl_int [OF rn])
  have e: "round_nearest 1 = 1" "round_nearest 2 = 2" "round_nearest 3 = 3"
    "round_nearest 4 = 4" "round_nearest 6 = 6" "round_nearest 8 = 8"
    "round_nearest (- 3) = - 3"
    using ex [of 1] ex [of 2] ex [of 3] ex [of 4] ex [of 6] ex [of 8] ex [of "- 3"] by simp_all
  have "(- (3 / 2) :: real) \<in> double"
    by (rule doubleI [where m = "- 3" and b = 1]) simp_all
  then have h: "round_nearest (- (3 / 2)) = - (3 / 2)" by (rule round_nearest_double)
  have five: "round_nearest (8 / (3602879701896397 / 2 ^ 51)) = 5"
    by (rule eight_over_1_6 [OF rn])
  have a: "TargetPad round_nearest (1 / 2)
       \<lparr>img_w = 4, img_h = 2, img_px = [[1, 2, 3, 4], [5, 6, 7, 8 :: nat]]\<rparr>
     = Inr (pad \<lparr>img_w = 4, img_h = 2, img_px = [[1, 2, 3, 4], [5, 6, 7, 8]]\<rparr> 2 3 2 3)"
    by (simp add: TargetPad_def Let_def e py_int_def)
  have five': "round_nearest (18014398509481984 / 3602879701896397) = 5"
    using five by simp
  have b: "TargetPad round_nearest (3602879701896397 / 2 ^ 51)
       \<lparr>img_w = 1, img_h = 8, img_px = [[1], [2], [3], [4], [5], [6], [7], [8 :: nat]]\<rparr>
     = Inr (pad \<lparr>img_w = 1, img_h = 8, img_px = [[1], [2], [3], [4], [5], [6], [7], [8]]\<rparr>
              2 0 2 0)"
    by (simp add: TargetPad_def Let_def e h five' py_int_def)
  from a b double_1_6 [OF rn] show ?thesis by simp
qed

lemma nat_size_bound:
  assumes "(n::nat) < 2 ^ 53"
  shows "int n < 2 ^ 53"
  using assms by (metis of_nat_less_numeral_power_cancel_iff)

text \<open>
  C4, amended. For a rounding within IEEE 754, a target ratio that is a double and at
  least 1, and an image whose sides are not empty and below \<open>2 ^ 53\<close>: when the ratio of
  the long side to the short side is below the target, the image comes back as it is.
  Otherwise the same amount is added left and right and the same amount top and bottom,
  the long side keeps its length, and the padded short side is at most the scaled
  length and less than two pixels below it, the scaled length being the double of the
  long side divided by the target, which is less than 1 away from that quotient.
\<close>

theorem TargetPad_reaches_target_ratio:
  assumes fl: "nearest_double fl"
    and t: "target_ratio \<in> double" "1 \<le> target_ratio"
    and pos: "0 < img_w img" "0 < img_h img"
    and small: "img_w img < 2 ^ 53" "img_h img < 2 ^ 53"
  shows "if real (max (img_w img) (img_h img)) / real (min (img_w img) (img_h img)) < target_ratio
         then TargetPad fl target_ratio img = Inr img
         else (\<exists>hp vp padded.
                 TargetPad fl target_ratio img = Inr padded \<and> padded = pad img hp vp hp vp \<and>
                 max (img_w padded) (img_h padded) = max (img_w img) (img_h img) \<and>
                 real (min (img_w padded) (img_h padded))
                   \<le> fl (real (max (img_w img) (img_h img)) / target_ratio) \<and>
                 fl (real (max (img_w img) (img_h img)) / target_ratio) - 2
                   < real (min (img_w padded) (img_h padded)) \<and>
                 \<bar>fl (real (max (img_w img) (img_h img)) / target_ratio)
                    - real (max (img_w img) (img_h img)) / target_ratio\<bar> < 1)"
proof -
  have main: "if real a / real b < target_ratio
      then TargetPad fl target_ratio img = Inr img
      else (\<exists>p. TargetPad fl target_ratio img = Inr (pads 0 p) \<and>
              real (b + 2 * p) \<le> fl (real a / target_ratio) \<and>
              fl (real a / target_ratio) - 2 < real (b + 2 * p) \<and>
              fl (real a / target_ratio) \<le> real a \<and>
              \<bar>fl (real a / target_ratio) - real a / target_ratio\<bar> < 1)"
    if ab: "0 < b" "b \<le> a" "a < 2 ^ 53"
      and unfold: "TargetPad fl target_ratio img =
        (if fl (real_of_int (int a) / real_of_int (int b)) < target_ratio then Inr img
         else if target_ratio = 0 then Inl ZeroDivisionError
         else if 2 ^ 1024 - 2 ^ 970 \<le> \<bar>fl (real_of_int (int a)) / target_ratio\<bar>
           then Inl OverflowError
         else Inr (pads
           (nat (max (py_int (fl (fl (fl (fl (real_of_int (int a)) / target_ratio)
              - fl (real_of_int (int a))) / 2))) 0))
           (nat (max (py_int (fl (fl (fl (fl (real_of_int (int a)) / target_ratio)
              - fl (real_of_int (int b))) / 2))) 0))))"
      and zero: "pads 0 0 = img"
    for a b :: nat and pads :: "nat \<Rightarrow> nat \<Rightarrow> 'a image"
  proof (cases "real a / real b < target_ratio")
    case True
    have ib: "1 \<le> int b" "int b \<le> int a" "int a < 2 ^ 53"
      using ab by (simp_all add: nat_size_bound)
    have r: "real_of_int (int a) / real_of_int (int b) < target_ratio"
      using True by simp
    have "TargetPad fl target_ratio img = Inr img"
      unfolding unfold pads_below_target [OF fl ib r] by (simp add: zero)
    with True show ?thesis by simp
  next
    case False
    have ib: "1 \<le> int b" "int b \<le> int a" "int a < 2 ^ 53"
      using ab by (simp_all add: nat_size_bound)
    have r: "target_ratio \<le> real_of_int (int a) / real_of_int (int b)"
      using False by simp
    let ?scaled = "fl (real a / target_ratio)"
    let ?d = "?scaled - real b"
    note sb = scaled_between_sides [OF fl ib t r, simplified]
    have eq: "TargetPad fl target_ratio img = Inr (pads 0 (nat \<lfloor>?d / 2\<rfloor>))"
      unfolding unfold pads_at_target [OF fl ib t r] by simp
    have d0: "0 \<le> ?d" using sb(5) by simp
    note fb = floor_half_bounds [OF d0, of "int b", simplified]
    have up: "real (b + 2 * nat \<lfloor>?d / 2\<rfloor>) \<le> ?scaled"
      using fb(1) by simp
    have lo: "?scaled - 2 < real (b + 2 * nat \<lfloor>?d / 2\<rfloor>)"
      using fb(2) by simp
    have q: "0 \<le> real a / target_ratio" "real a / target_ratio \<le> 2 ^ 53"
      using sb(3) t(2) by (simp_all add: abs_le_iff)
    have near: "\<bar>?scaled - real a / target_ratio\<bar> < 1"
      by (rule fl_within_one [OF fl q])
    from eq up lo sb(6) near False show ?thesis by auto
  qed
  show ?thesis
  proof (cases "img_h img \<le> img_w img")
    case True
    note m = main [OF pos(2) True small(1),
        where pads = "\<lambda>x y. pad img x y x y", OF TargetPad_landscape [OF pos(2) True]]
    have mx: "max (img_w img) (img_h img) = img_w img"
      and mn: "min (img_w img) (img_h img) = img_h img"
      using True by simp_all
    show ?thesis
    proof (cases "real (img_w img) / real (img_h img) < target_ratio")
      case below: True
      with m show ?thesis unfolding mx mn by simp
    next
      case above: False
      with m obtain p where p: "TargetPad fl target_ratio img = Inr (pad img 0 p 0 p)"
        and up: "real (img_h img + 2 * p) \<le> fl (real (img_w img) / target_ratio)"
        and lo: "fl (real (img_w img) / target_ratio) - 2 < real (img_h img + 2 * p)"
        and le: "fl (real (img_w img) / target_ratio) \<le> real (img_w img)"
        and near: "\<bar>fl (real (img_w img) / target_ratio) - real (img_w img) / target_ratio\<bar> < 1"
        by auto
      have hw: "img_h img + 2 * p \<le> img_w img" using up le by linarith
      have sz: "img_w (pad img 0 p 0 p) = img_w img" "img_h (pad img 0 p 0 p) = img_h img + 2 * p"
        by simp_all
      let ?P = "pad img 0 p 0 p"
      have mx': "max (img_w ?P) (img_h ?P) = img_w img"
        and mn': "min (img_w ?P) (img_h ?P) = img_h img + 2 * p"
        unfolding sz using hw by simp_all
      have "TargetPad fl target_ratio img = Inr ?P \<and> ?P = pad img 0 p 0 p \<and>
          max (img_w ?P) (img_h ?P) = img_w img \<and>
          real (min (img_w ?P) (img_h ?P)) \<le> fl (real (img_w img) / target_ratio) \<and>
          fl (real (img_w img) / target_ratio) - 2 < real (min (img_w ?P) (img_h ?P)) \<and>
          \<bar>fl (real (img_w img) / target_ratio) - real (img_w img) / target_ratio\<bar> < 1"
        using p up lo near by (simp only: mx' mn' simp_thms)
      then show ?thesis
        unfolding mx mn if_not_P [OF above] by blast
    qed
  next
    case False
    then have wh: "img_w img \<le> img_h img" by simp
    note m = main [OF pos(1) wh small(2),
        where pads = "\<lambda>x y. pad img y x y x", OF TargetPad_portrait [OF pos(1) wh]]
    have mx: "max (img_w img) (img_h img) = img_h img"
      and mn: "min (img_w img) (img_h img) = img_w img"
      using wh by simp_all
    show ?thesis
    proof (cases "real (img_h img) / real (img_w img) < target_ratio")
      case below: True
      with m show ?thesis unfolding mx mn by simp
    next
      case above: False
      with m obtain p where p: "TargetPad fl target_ratio img = Inr (pad img p 0 p 0)"
        and up: "real (img_w img + 2 * p) \<le> fl (real (img_h img) / target_ratio)"
        and lo: "fl (real (img_h img) / target_ratio) - 2 < real (img_w img + 2 * p)"
        and le: "fl (real (img_h img) / target_ratio) \<le> real (img_h img)"
        and near: "\<bar>fl (real (img_h img) / target_ratio) - real (img_h img) / target_ratio\<bar> < 1"
        by auto
      have hw: "img_w img + 2 * p \<le> img_h img" using up le by linarith
      have sz: "img_w (pad img p 0 p 0) = img_w img + 2 * p" "img_h (pad img p 0 p 0) = img_h img"
        by simp_all
      let ?P = "pad img p 0 p 0"
      have mx': "max (img_w ?P) (img_h ?P) = img_h img"
        and mn': "min (img_w ?P) (img_h ?P) = img_w img + 2 * p"
        unfolding sz using hw by simp_all
      have "TargetPad fl target_ratio img = Inr ?P \<and> ?P = pad img p 0 p 0 \<and>
          max (img_w ?P) (img_h ?P) = img_h img \<and>
          real (min (img_w ?P) (img_h ?P)) \<le> fl (real (img_h img) / target_ratio) \<and>
          fl (real (img_h img) / target_ratio) - 2 < real (min (img_w ?P) (img_h ?P)) \<and>
          \<bar>fl (real (img_h img) / target_ratio) - real (img_h img) / target_ratio\<bar> < 1"
        using p up lo near by (simp only: mx' mn' simp_thms)
      then show ?thesis
        unfolding mx mn if_not_P [OF above] by blast
    qed
  qed
qed

theorem TargetPad_reaches_target_ratio_witness:
  "nearest_double round_nearest \<and> (5 / 4 :: real) \<in> double \<and>
   TargetPad round_nearest (5 / 4) \<lparr>img_w = 2, img_h = 2, img_px = [[1, 2], [3, 4 :: nat]]\<rparr>
     = Inr \<lparr>img_w = 2, img_h = 2, img_px = [[1, 2], [3, 4]]\<rparr> \<and>
   (\<exists>hp vp padded.
      TargetPad round_nearest (5 / 4)
          \<lparr>img_w = 5, img_h = 2, img_px = [[1, 2, 3, 4, 5], [6, 7, 8, 9, 10 :: nat]]\<rparr>
        = Inr padded \<and>
      padded = pad \<lparr>img_w = 5, img_h = 2, img_px = [[1, 2, 3, 4, 5], [6, 7, 8, 9, 10]]\<rparr>
                 hp vp hp vp \<and>
      max (img_w padded) (img_h padded) = 5 \<and>
      real (min (img_w padded) (img_h padded)) \<le> round_nearest 4 \<and>
      round_nearest 4 - 2 < real (min (img_w padded) (img_h padded)) \<and>
      \<bar>round_nearest 4 - 4\<bar> < 1)"
proof -
  have t: "(5 / 4 :: real) \<in> double"
    by (rule doubleI [where m = 5 and b = 2]) simp_all
  from TargetPad_reaches_target_ratio [OF nearest_double_round_nearest t,
      of "\<lparr>img_w = 2, img_h = 2, img_px = [[1, 2], [3, 4 :: nat]]\<rparr>"]
    TargetPad_reaches_target_ratio [OF nearest_double_round_nearest t,
      of "\<lparr>img_w = 5, img_h = 2, img_px = [[1, 2, 3, 4, 5], [6, 7, 8, 9, 10 :: nat]]\<rparr>"]
  show ?thesis
    using nearest_double_round_nearest t by simp
qed

section \<open>Caption composition\<close>

lemma captions_pair:
  assumes "2 \<le> length caps"
  obtains A B rest where "caps = A # B # rest"
proof (cases caps)
  case Nil
  with assms show ?thesis by simp
next
  case (Cons A tl)
  with assms that show ?thesis by (cases tl) simp_all
qed

text \<open>
  With no override, a pair of captions and a draw strictly inside a quartile: the four
  compositions. The draws 0.25 and 0.5 themselves fall through to the last branch.
\<close>

lemma caption_by_draw:
  assumes "type \<notin> {0, 1, 2, 3}"
  shows "generate_randomized_fiq_caption r (A # B # rest) type =
     (if r < 0.25 then Inr (strip ''.?, '' A @ '' and '' @ strip ''.?, '' B)
      else if 0.25 < r \<and> r < 0.5 then Inr (strip ''.?, '' B @ '' and '' @ strip ''.?, '' A)
      else if 0.5 < r \<and> r < 0.75 then Inr (strip ''.?, '' A)
      else Inr (strip ''.?, '' B))"
  using assms by (simp add: generate_randomized_fiq_caption_def)

text \<open>
  C2. The claim gives the draw 0.25 to the second composition and the draw 0.5 to the
  third. The code tests \<^verbatim>\<open>0.25 < random_num < 0.5\<close> and
  \<^verbatim>\<open>0.5 < random_num < 0.75\<close>, so both draws reach the last branch: the second
  caption alone.
\<close>

theorem caption_at_quartile_boundaries:
  "generate_randomized_fiq_caption 0.25 [''is red.'', ''has long sleeves ''] (- 1)
     = Inr ''has long sleeves'' \<and>
   generate_randomized_fiq_caption 0.5 [''is red.'', ''has long sleeves ''] (- 1)
     = Inr ''has long sleeves''"
  by (simp add: generate_randomized_fiq_caption_def strip_def)

text \<open>
  C5. With the selector 0, 1, 2 or 3 the caption is the composition of that quartile
  whatever was drawn. The validation branch of \<^verbatim>\<open>CIRDataset.__getitem__\<close> that
  composes a caption (\<^verbatim>\<open>split == 'val'\<close> with \<^verbatim>\<open>val_ret_train\<close>) passes the selector 0:
  for a triplet with two captions or more it returns the first followed by the second.
\<close>

theorem selector_overrides_draw:
  "generate_randomized_fiq_caption r (A # B # rest) 0
     = Inr (strip ''.?, '' A @ '' and '' @ strip ''.?, '' B) \<and>
   generate_randomized_fiq_caption r (A # B # rest) 1
     = Inr (strip ''.?, '' B @ '' and '' @ strip ''.?, '' A) \<and>
   generate_randomized_fiq_caption r (A # B # rest) 2 = Inr (strip ''.?, '' A) \<and>
   generate_randomized_fiq_caption r (A # B # rest) 3 = Inr (strip ''.?, '' B) \<and>
   (mode self = ''relative'' \<and> split self = ''val'' \<and> val_ret_train self \<and>
    py_index (triplets self) index = Inr t \<and> captions t = A # B # rest \<and>
    load (reference t) = Inr reference_image \<and> load (target t) = Inr target_image
    \<longrightarrow> CIRDataset_getitem load base_path self d index
          = Inr (Some (ValRetTrain reference_image
                  (strip ''.?, '' A @ '' and '' @ strip ''.?, '' B) target_image)))"
  by (simp add: generate_randomized_fiq_caption_def CIRDataset_getitem_def
      relative_val_ret_train_def val_caption_def)

theorem selector_overrides_draw_witness:
  "CIRDataset_getitem (\<lambda>p. Inr p) ''/repo'' example_val_dataset
       \<lparr>random_num = 0.9, choice_num = 1\<rparr> 0
     = Inr (Some (ValRetTrain ''data/images/B01.png'' ''is red and has long sleeves''
                    ''data/images/B02.png''))"
proof -
  have "py_index (triplets example_val_dataset) 0 = Inr example_triplet"
    by (simp add: example_val_dataset_def)
  moreover have "captions example_triplet = ''is red.'' # ''has long sleeves '' # []"
    by (simp add: example_triplet_def)
  moreover have "strip ''.?, '' ''is red.'' @ '' and '' @ strip ''.?, '' ''has long sleeves ''
      = ''is red and has long sleeves''"
    by (simp add: strip_def)
  ultimately show ?thesis
    using selector_overrides_draw [where r = "0.9" and A = "''is red.''"
        and B = "''has long sleeves ''" and rest = "[]" and self = example_val_dataset
        and index = 0 and t = example_triplet and load = "\<lambda>p. Inr p"
        and reference_image = "''data/images/B01.png''"
        and target_image = "''data/images/B02.png''" and base_path = "''/repo''"
        and d = "\<lparr>random_num = 0.9, choice_num = 1\<rparr>"]
    by (simp add: example_val_dataset_def example_triplet_def)
qed

text \<open>
  C10. On two captions or more the function returns a caption for every draw and every
  selector. On a single caption, with no override, it returns only for a draw strictly
  between 0.5 and 0.75 and raises \<open>IndexError\<close> for every other draw. Both call sites
  in \<^verbatim>\<open>CIRDataset.__getitem__\<close> call it under \<^verbatim>\<open>len(captions) > 1\<close> and take
  \<^verbatim>\<open>captions[0]\<close> otherwise, so on a non-empty caption list neither raises
  \<open>IndexError\<close>.
\<close>

theorem caption_total_on_two_captions:
  "(2 \<le> length caps \<longrightarrow> (\<exists>c. generate_randomized_fiq_caption r caps type = Inr c)) \<and>
   (type \<notin> {0, 1, 2, 3} \<longrightarrow>
      generate_randomized_fiq_caption r [a] type =
        (if 0.5 < r \<and> r < 0.75 then Inr (strip ''.?, '' a) else Inl IndexError)) \<and>
   (caps \<noteq> [] \<longrightarrow>
      train_caption self d index caps \<noteq> Inl IndexError \<and>
      val_caption d caps \<noteq> Inl IndexError)"
proof (intro conjI impI)
  assume "2 \<le> length caps"
  then obtain A B rest where caps: "caps = A # B # rest" by (rule captions_pair)
  show "\<exists>c. generate_randomized_fiq_caption r caps type = Inr c"
    unfolding caps by (simp add: generate_randomized_fiq_caption_def Let_def)
next
  assume "type \<notin> {0, 1, 2, 3}"
  then show "generate_randomized_fiq_caption r [a] type =
      (if 0.5 < r \<and> r < 0.75 then Inr (strip ''.?, '' a) else Inl IndexError)"
    by (simp add: generate_randomized_fiq_caption_def)
next
  assume ne: "caps \<noteq> []"
  have gen: "\<exists>c. generate_randomized_fiq_caption x caps ty = Inr c"
    if "1 < length caps" for x ty
  proof -
    from that have "2 \<le> length caps" by simp
    then obtain A B rest where caps: "caps = A # B # rest" by (rule captions_pair)
    show ?thesis unfolding caps by (simp add: generate_randomized_fiq_caption_def Let_def)
  qed
  have first: "\<exists>c. py_index caps 0 = Inr c"
    using ne by (cases caps) simp_all
  have choice: "\<exists>c. random_choice d caps = Inr c"
    using ne by (simp add: random_choice_def)
  show "train_caption self d index caps \<noteq> Inl IndexError"
  proof (cases "1 < length caps")
    case True
    from gen [OF True] obtain g
      where g: "generate_randomized_fiq_caption (random_num d) caps (- 1) = Inr g" by blast
    from choice obtain c where c: "random_choice d caps = Inr c" by blast
    from True show ?thesis
      by (cases "N self") (simp_all add: train_caption_def py_attr_def g c)
  next
    case False
    from first obtain c where "py_index caps 0 = Inr c" by blast
    with False show ?thesis by (simp add: train_caption_def)
  qed
  show "val_caption d caps \<noteq> Inl IndexError"
  proof (cases "1 < length caps")
    case True
    from gen [OF True] obtain g
      where "generate_randomized_fiq_caption (random_num d) caps 0 = Inr g" by blast
    with True show ?thesis by (simp add: val_caption_def)
  next
    case False
    from first obtain c where "py_index caps 0 = Inr c" by blast
    with False show ?thesis by (simp add: val_caption_def)
  qed
qed

theorem caption_total_on_two_captions_witness:
  "(\<exists>c. generate_randomized_fiq_caption 0.1 [''is red.'', ''has long sleeves ''] (- 1) = Inr c) \<and>
   generate_randomized_fiq_caption 0.1 [''is red.''] (- 1) = Inl IndexError \<and>
   train_caption example_val_dataset \<lparr>random_num = 0.1, choice_num = 1\<rparr> 0 [''is red.'']
     \<noteq> Inl IndexError \<and>
   val_caption \<lparr>random_num = 0.1, choice_num = 1\<rparr> [''is red.''] \<noteq> Inl IndexError"
  using caption_total_on_two_captions [where caps = "[''is red.'', ''has long sleeves '']"
      and r = "0.1" and type = "- 1" and a = "''is red.''" and self = example_val_dataset
      and d = "\<lparr>random_num = 0.1, choice_num = 1\<rparr>" and index = 0]
    caption_total_on_two_captions [where caps = "[''is red.'']"
      and r = "0.1" and type = "- 1" and a = "''is red.''" and self = example_val_dataset
      and d = "\<lparr>random_num = 0.1, choice_num = 1\<rparr>" and index = 0]
  by simp

section \<open>Ranking\<close>

lemma zip_positions:
  assumes "p \<in> set (zip ds [0..<length ds])"
  shows "ds ! snd p = fst p"
  using assms by (auto simp: set_zip)

lemma values_of_sorted_pairs:
  assumes "set L = set (zip ds [0..<length ds])"
  shows "map (\<lambda>i. ds ! i) (map snd L) = map fst L"
  using assms zip_positions [of _ ds] by (auto simp: map_eq_conv)

lemma argsort_contract_stable: "argsort_contract stable_argsort"
  unfolding argsort_contract_def
proof (intro allI conjI)
  fix ds :: "real list"
  have "mset (map snd (sort_key fst (zip ds [0..<length ds])))
      = mset (map snd (zip ds [0..<length ds]))"
    by (simp only: mset_map mset_sort)
  also have "map snd (zip ds [0..<length ds]) = [0..<length ds]"
    by simp
  finally show "mset (stable_argsort ds) = mset [0..<length ds]"
    by (simp only: stable_argsort_def)
  have "map (\<lambda>i. ds ! i) (stable_argsort ds) = map fst (sort_key fst (zip ds [0..<length ds]))"
    unfolding stable_argsort_def by (rule values_of_sorted_pairs) simp
  then show "sorted (map (\<lambda>i. ds ! i) (stable_argsort ds))"
    by (simp add: sorted_sort_key)
qed

text \<open>
  C8. The claim: ranking against a gallery with no rows raises an error before any
  distance is computed. The code has no such check: on an empty gallery it computes an
  empty distance row, sorts it and returns an empty ranking.
\<close>

theorem empty_gallery_returns_empty_ranking:
  "get_predictions stable_argsort exact_ops [1, 0] \<lparr>ncols = 2, mrows = []\<rparr> [] = Inr []"
  by (simp add: get_predictions_def matmul_T_def normalize_def stable_argsort_def)

text \<open>
  C8, amended. Against a gallery with no rows and a query of the gallery's dimension, the
  call raises nothing and returns the empty ranking, whatever the sorting routine within
  the contract and whatever the rounding of the tensor computations.
\<close>

theorem empty_gallery_no_error:
  assumes "argsort_contract argsort"
    and "length q = ncols G"
    and "mrows G = []"
  shows "get_predictions argsort ops q G names = Inr []"
proof -
  from assms(1) have "mset (argsort []) = mset [0..<length ([] :: real list)]"
    unfolding argsort_contract_def by blast
  then have "argsort [] = []" by simp
  then show ?thesis
    using assms(2, 3) by (simp add: get_predictions_def matmul_T_def normalize_def)
qed

theorem empty_gallery_no_error_witness:
  "get_predictions stable_argsort exact_ops [1, 0, 0] \<lparr>ncols = 3, mrows = []\<rparr> [] = Inr []"
  using empty_gallery_no_error [OF argsort_contract_stable,
      where q = "[1, 0, 0]" and G = "\<lparr>ncols = 3, mrows = []\<rparr>" and names = "[]"
      and ops = exact_ops]
  by simp

section \<open>Index building\<close>

lemma vstack_rows:
  assumes "list_all (\<lambda>r. length r = ncols M) batch"
  shows "vstack M batch = Inr (M\<lparr>mrows := mrows M @ batch\<rparr>)"
  using assms by (simp add: vstack_def)

lemma index_loop_all_fetched:
  assumes collate: "\<And>name im. collate_fn [Some (name, im)] = Inr ([name], [im])"
    and enc: "\<And>im. length (encode im) = ncols M"
    and items: "\<And>j. j < length xs \<Longrightarrow> getitem (int (k + j)) = Inr (Some (xs ! j))"
  shows "index_loop collate_fn encode getitem [k..<k + length xs] (M, ns)
    = Inr (M\<lparr>mrows := mrows M @ map (\<lambda>it. encode (snd it)) xs\<rparr>, ns @ map fst xs)"
  using enc items
proof (induction xs arbitrary: k M ns)
  case Nil
  then show ?case by simp
next
  case (Cons x xs)
  let ?M = "M\<lparr>mrows := mrows M @ [encode (snd x)]\<rparr>"
  have range: "[k..<k + length (x # xs)] = k # [Suc k..<Suc k + length xs]"
    by (subst upt_rec) simp
  have fetch: "getitem (int k) = Inr (Some x)"
    using Cons.prems(2) [of 0] by simp
  have coll: "collate_fn [Some x] = Inr ([fst x], [snd x])"
    using collate [of "fst x" "snd x"] by simp
  have stack: "vstack M [encode (snd x)] = Inr ?M"
    by (rule vstack_rows) (simp add: Cons.prems(1))
  have rest: "index_loop collate_fn encode getitem [Suc k..<Suc k + length xs] (?M, ns @ [fst x])
      = Inr (?M\<lparr>mrows := mrows ?M @ map (\<lambda>it. encode (snd it)) xs\<rparr>, (ns @ [fst x]) @ map fst xs)"
  proof (rule Cons.IH)
    show "length (encode im) = ncols ?M" for im
      by (simp add: Cons.prems(1))
    show "getitem (int (Suc k + j)) = Inr (Some (xs ! j))" if "j < length xs" for j
      using Cons.prems(2) [of "Suc j"] that by simp
  qed
  have "index_loop collate_fn encode getitem (k # [Suc k..<Suc k + length xs]) (M, ns)
      = index_loop collate_fn encode getitem [Suc k..<Suc k + length xs] (?M, ns @ [fst x])"
    by (simp only: index_loop.simps fetch coll stack ebind_Inr fst_conv snd_conv list.map)
  also note rest
  also have "Inr (?M\<lparr>mrows := mrows ?M @ map (\<lambda>it. encode (snd it)) xs\<rparr>,
        (ns @ [fst x]) @ map fst xs)
      = (Inr (M\<lparr>mrows := mrows M @ map (\<lambda>it. encode (snd it)) (x # xs)\<rparr>,
          ns @ map fst (x # xs)) :: error + matrix \<times> string list)"
    by simp
  finally show ?case
    unfolding range .
qed

text \<open>
  C3. When \<^verbatim>\<open>collate_fn\<close> turns a batch of one fetched item into that item's name and
  image, the encoder returns rows of the index's dimension, and the dataset of \<open>len\<close>
  items yields an item at every position: the build returns the encoded images and the
  names, both in the order of the dataset, row \<open>i\<close> and name \<open>i\<close> from item \<open>i\<close>, both of
  length \<open>len\<close>, with nothing merged or moved.
\<close>

theorem index_follows_dataset_order:
  assumes "\<And>name im. collate_fn [Some (name, im)] = Inr ([name], [im])"
    and "\<And>im. length (encode im) = feature_dim"
    and "length items = len"
    and "\<And>i. i < len \<Longrightarrow> getitem (int i) = Inr (Some (items ! i))"
  shows "extract_index_features collate_fn encode feature_dim getitem len
           = Inr (\<lparr>ncols = feature_dim, mrows = map (\<lambda>it. encode (snd it)) items\<rparr>,
                  map fst items) \<and>
         length (map (\<lambda>it. encode (snd it)) items) = len \<and>
         length (map fst items) = len"
proof -
  have "index_loop collate_fn encode getitem [0..<0 + length items]
      (\<lparr>ncols = feature_dim, mrows = []\<rparr>, [])
    = Inr (\<lparr>ncols = feature_dim, mrows = []\<rparr>
             \<lparr>mrows := mrows \<lparr>ncols = feature_dim, mrows = []\<rparr> @ map (\<lambda>it. encode (snd it)) items\<rparr>,
           [] @ map fst items)"
  proof (rule index_loop_all_fetched)
    show "collate_fn [Some (name, im)] = Inr ([name], [im])" for name im
      by (rule assms(1))
    show "length (encode im) = ncols \<lparr>ncols = feature_dim, mrows = []\<rparr>" for im
      by (simp add: assms(2))
    show "getitem (int (0 + j)) = Inr (Some (items ! j))" if "j < length items" for j
      using assms(4) [of j] that assms(3) by simp
  qed
  then show ?thesis
    using assms(3) by (simp add: extract_index_features_def)
qed

theorem index_follows_dataset_order_witness:
  "extract_index_features collate_present (\<lambda>im. [real (length im), 1]) 2
       (\<lambda>i. Inr (Some ([(''a.jpg'', ''xx''), (''b.jpg'', ''y''), (''a.jpg'', ''xx'')] ! nat i))) 3
     = Inr (\<lparr>ncols = 2, mrows = [[2, 1], [1, 1], [2, 1]]\<rparr>, [''a.jpg'', ''b.jpg'', ''a.jpg''])"
proof -
  have c: "collate_present [Some (name, im)] = Inr ([name], [im])" for name :: string and im :: string
    by (simp add: collate_present_def)
  have e: "length [real (length im), 1] = 2" for im :: string
    by simp
  have l: "length [(''a.jpg'', ''xx''), (''b.jpg'', ''y''), (''a.jpg'', ''xx'')] = 3"
    by simp
  have g: "(\<lambda>i. Inr (Some ([(''a.jpg'', ''xx''), (''b.jpg'', ''y''), (''a.jpg'', ''xx'')] ! nat i)))
      (int i) = (Inr (Some ([(''a.jpg'', ''xx''), (''b.jpg'', ''y''), (''a.jpg'', ''xx'')] ! i))
        :: error + (string \<times> string) option)" if "i < 3" for i
    by simp
  from index_follows_dataset_order [of collate_present "\<lambda>im. [real (length im), 1]" 2
      "[(''a.jpg'', ''xx''), (''b.jpg'', ''y''), (''a.jpg'', ''xx'')]" 3
      "\<lambda>i. Inr (Some ([(''a.jpg'', ''xx''), (''b.jpg'', ''y''), (''a.jpg'', ''xx'')] ! nat i))",
      OF c e l g]
  show ?thesis by simp
qed

section \<open>Dataset adapters\<close>

lemma try_except_print_raise [simp]: "try_except_print (Inl e) = (None, [e])"
  by (simp add: try_except_print_def)

lemma try_except_print_return [simp]: "try_except_print (Inr r) = (r, [])"
  by (simp add: try_except_print_def)

text \<open>
  C6. The claim: in every dataset adapter a failing item is caught and skipped with a
  logged warning, and the iteration goes on. \<^verbatim>\<open>CIRDataset.__getitem__\<close> has no handler:
  when the reference image of the first triplet cannot be opened, the exception leaves
  the method, although the second triplet loads. \<^verbatim>\<open>FashionIQDataset.__getitem__\<close> has
  the handler and prints the exception, but the item is not skipped: the method returns
  \<open>None\<close> in its place.
\<close>

theorem item_failure_not_skipped:
  "CIRDataset_getitem (load_but ''data/images/B01.png'') ''/repo'' example_val_dataset
       \<lparr>random_num = 0.1, choice_num = 0\<rparr> 0 = Inl OSError \<and>
   CIRDataset_getitem (load_but ''data/images/B01.png'') ''/repo'' example_val_dataset
       \<lparr>random_num = 0.1, choice_num = 0\<rparr> 1
     = Inr (Some (ValRetTrain ''data/images/B03.png'' ''is shorter and is darker''
                    ''data/images/B04.png'')) \<and>
   FashionIQDataset_getitem (load_but ''/repo/fashionIQ_dataset/images/B02.jpg'') ''/repo''
       example_classic_dataset 1 = (None, [OSError])"
proof -
  let ?get = "CIRDataset_getitem (load_but ''data/images/B01.png'') ''/repo'' example_val_dataset
      \<lparr>random_num = 0.1, choice_num = 0\<rparr>"
  have g0: "?get 0 = Inl OSError"
    by (simp add: CIRDataset_getitem_def example_val_dataset_def example_triplet_def
        relative_val_ret_train_def val_caption_def generate_randomized_fiq_caption_def
        load_but_def)
  have g1: "?get 1
      = Inr (Some (ValRetTrain ''data/images/B03.png'' ''is shorter and is darker''
                     ''data/images/B04.png''))"
    by (simp add: CIRDataset_getitem_def example_val_dataset_def example_triplet2_def
        relative_val_ret_train_def val_caption_def generate_randomized_fiq_caption_def
        load_but_def strip_def py_index_def)
  have p: "fiq_image_file ''/repo'' ''B02'' = ''/repo/fashionIQ_dataset/images/B02.jpg''"
    by (simp add: fiq_image_file_def pathlib_div_def path_root_def path_parts_def path_str_def)
  have f1: "FashionIQDataset_getitem (load_but ''/repo/fashionIQ_dataset/images/B02.jpg'') ''/repo''
      example_classic_dataset 1 = (None, [OSError])"
    by (simp add: FashionIQDataset_getitem_def FashionIQDataset_getitem_body_def
        example_classic_dataset_def py_index_def p load_but_def)
  from g0 g1 f1 show ?thesis by simp
qed

text \<open>
  C7. The claim: every dataset adapter rejects an unknown mode, split or dataset name
  when it is constructed. \<^verbatim>\<open>CIRDataset.__init__\<close> checks none of the three: with names it
  does not know it reads no file and returns a dataset without triplets, whose
  \<^verbatim>\<open>__getitem__\<close> and \<^verbatim>\<open>__len__\<close> then return \<open>None\<close>.
\<close>

theorem CIRDataset_accepts_unknown_names:
  "CIRDataset_init no_files (\<lambda>xs. xs) ''imagenet'' ''dev'' ''streaming'' ''data'' None
       False 0 False False
     = Inr \<lparr> data_name = ''imagenet'', split = ''dev'', mode = ''streaming'',
             data_path = ''data'', dress_types = [''dress'', ''shirt'', ''toptee''],
             triplets = [], targetname2id = Map.empty, use_bank = False,
             val_ret_train = False, fiq_val_type = 0, imagename2id = Map.empty,
             imagenames = [], imagepaths = [], N = None, image_path = None,
             image_names = None, val_image_names = None, name_to_relpath = None \<rparr> \<and>
   (\<exists>self. CIRDataset_init no_files (\<lambda>xs. xs) ''imagenet'' ''dev'' ''streaming'' ''data'' None
              False 0 False False = Inr self \<and>
           CIRDataset_getitem (\<lambda>p. Inr p) ''/repo'' self \<lparr>random_num = 0.1, choice_num = 0\<rparr> 0
             = (Inr None :: error + string cir_item option) \<and>
           CIRDataset_len self = Inr None)"
  by (simp add: CIRDataset_init_def CIRDataset_getitem_def CIRDataset_len_def)

text \<open>
  C7, amended. \<^verbatim>\<open>FashionIQDataset\<close> raises \<open>ValueError\<close> at construction for a mode
  outside \<^verbatim>\<open>['relative', 'classic']\<close>, a split outside \<^verbatim>\<open>['test', 'train', 'val']\<close> or a
  dress type outside \<^verbatim>\<open>['dress', 'shirt', 'toptee']\<close>, and \<^verbatim>\<open>CIRRDataset\<close> for a split
  outside \<^verbatim>\<open>['test1', 'train', 'val']\<close> or a mode outside \<^verbatim>\<open>['relative', 'classic']\<close>,
  both before any file is read; \<^verbatim>\<open>CIRDataset\<close> raises \<open>AssertionError\<close> at construction
  for a dress type outside the three.
\<close>

theorem adapters_validate_at_construction:
  "(mode_arg \<notin> set [''relative'', ''classic''] \<or>
    split_arg \<notin> set [''test'', ''train'', ''val''] \<or>
    \<not> list_all (\<lambda>d. d \<in> set [''dress'', ''shirt'', ''toptee'']) dress_types_arg
    \<longrightarrow> FashionIQDataset_init fs base_path split_arg dress_types_arg mode_arg = Inl ValueError) \<and>
   (cirr_split_arg \<notin> set [''test1'', ''train'', ''val''] \<or>
    mode_arg \<notin> set [''relative'', ''classic'']
    \<longrightarrow> CIRRDataset_init fs base_path cirr_split_arg mode_arg = Inl ValueError) \<and>
   (\<not> list_all (\<lambda>d. d \<in> set [''dress'', ''shirt'', ''toptee'']) dress_types_arg
    \<longrightarrow> CIRDataset_init fs list_of_set data_name_arg split_arg mode_arg data_path_arg
          (Some dress_types_arg) val_ret_train_arg fiq_val_type_arg plus_arg llmcap_arg
        = Inl AssertionError)"
proof (intro conjI impI)
  assume "mode_arg \<notin> set [''relative'', ''classic''] \<or>
    split_arg \<notin> set [''test'', ''train'', ''val''] \<or>
    \<not> list_all (\<lambda>d. d \<in> set [''dress'', ''shirt'', ''toptee'']) dress_types_arg"
  then show "FashionIQDataset_init fs base_path split_arg dress_types_arg mode_arg = Inl ValueError"
    unfolding FashionIQDataset_init_def by auto
next
  assume "cirr_split_arg \<notin> set [''test1'', ''train'', ''val''] \<or>
    mode_arg \<notin> set [''relative'', ''classic'']"
  then show "CIRRDataset_init fs base_path cirr_split_arg mode_arg = Inl ValueError"
    unfolding CIRRDataset_init_def by auto
next
  assume "\<not> list_all (\<lambda>d. d \<in> set [''dress'', ''shirt'', ''toptee'']) dress_types_arg"
  then show "CIRDataset_init fs list_of_set data_name_arg split_arg mode_arg data_path_arg
      (Some dress_types_arg) val_ret_train_arg fiq_val_type_arg plus_arg llmcap_arg
    = Inl AssertionError"
    unfolding CIRDataset_init_def by simp
qed

theorem adapters_validate_at_construction_witness:
  "FashionIQDataset_init no_files ''/repo'' ''val'' [''dress''] ''streaming'' = Inl ValueError \<and>
   CIRRDataset_init no_files ''/repo'' ''dev'' ''streaming'' = Inl ValueError \<and>
   CIRDataset_init no_files (\<lambda>xs. xs) ''fiq'' ''val'' ''streaming'' ''data'' (Some [''hat''])
       False 0 False False = Inl AssertionError"
  using
    adapters_validate_at_construction [where mode_arg = "''streaming''" and split_arg = "''val''"
      and dress_types_arg = "[''dress'']" and cirr_split_arg = "''dev''" and fs = no_files
      and base_path = "''/repo''"]
    adapters_validate_at_construction [where mode_arg = "''streaming''" and split_arg = "''val''"
      and dress_types_arg = "[''hat'']" and fs = no_files and list_of_set = "\<lambda>xs. xs"
      and data_name_arg = "''fiq''" and data_path_arg = "''data''" and val_ret_train_arg = False
      and fiq_val_type_arg = 0 and plus_arg = False and llmcap_arg = False]
  by simp

end
